theory Spec2Isabelle
  imports Main "HOL-Library.Word"
begin

unbundle bit_operations_syntax

section \<open>The graphics API as the wrappers see it\<close>

text \<open>
  \<^verbatim>\<open>BufferGPU\<close> and \<^verbatim>\<open>TextureGPU\<close> are thin sequences of Vulkan calls. The
  handles are opaque numbers; the flag words and enumerations carry the values of the
  Vulkan headers, and the fields of the structures have the types declared there
  (\<^verbatim>\<open>VkDeviceSize\<close> is an unsigned 64-bit integer, \<^verbatim>\<open>VkFlags\<close> an unsigned 32-bit
  one). A C \<^verbatim>\<open>int\<close> is a 32-bit word read with \<open>sint\<close>.
\<close>

type_synonym VkDevice = nat
type_synonym VkBuffer = nat
type_synonym VkImage = nat
type_synonym VkImageView = nat
type_synonym VkDeviceMemory = nat
type_synonym VkCommandBuffer = nat
type_synonym VkFormat = nat
type_synonym VkFlags = "32 word"
type_synonym uint32_t = "32 word"
type_synonym c_int = "32 word"
type_synonym VkDeviceSize = "64 word"

datatype VkResult =
    VK_SUCCESS
  | VK_ERROR_OUT_OF_HOST_MEMORY
  | VK_ERROR_OUT_OF_DEVICE_MEMORY
  | VK_ERROR_INVALID_OPAQUE_CAPTURE_ADDRESS

datatype VkStructureType =
    VK_STRUCTURE_TYPE_APPLICATION_INFO
  | VK_STRUCTURE_TYPE_MEMORY_ALLOCATE_INFO
  | VK_STRUCTURE_TYPE_BUFFER_CREATE_INFO
  | VK_STRUCTURE_TYPE_IMAGE_CREATE_INFO
  | VK_STRUCTURE_TYPE_IMAGE_VIEW_CREATE_INFO
  | VK_STRUCTURE_TYPE_IMAGE_MEMORY_BARRIER

datatype VkImageLayout =
    VK_IMAGE_LAYOUT_UNDEFINED
  | VK_IMAGE_LAYOUT_GENERAL
  | VK_IMAGE_LAYOUT_COLOR_ATTACHMENT_OPTIMAL
  | VK_IMAGE_LAYOUT_DEPTH_STENCIL_ATTACHMENT_OPTIMAL
  | VK_IMAGE_LAYOUT_DEPTH_STENCIL_READ_ONLY_OPTIMAL
  | VK_IMAGE_LAYOUT_SHADER_READ_ONLY_OPTIMAL
  | VK_IMAGE_LAYOUT_TRANSFER_SRC_OPTIMAL
  | VK_IMAGE_LAYOUT_TRANSFER_DST_OPTIMAL
  | VK_IMAGE_LAYOUT_PREINITIALIZED

datatype VkImageViewType =
    VK_IMAGE_VIEW_TYPE_1D
  | VK_IMAGE_VIEW_TYPE_2D
  | VK_IMAGE_VIEW_TYPE_3D
  | VK_IMAGE_VIEW_TYPE_CUBE

datatype VkComponentSwizzle =
    VK_COMPONENT_SWIZZLE_IDENTITY
  | VK_COMPONENT_SWIZZLE_ZERO
  | VK_COMPONENT_SWIZZLE_ONE
  | VK_COMPONENT_SWIZZLE_R
  | VK_COMPONENT_SWIZZLE_G
  | VK_COMPONENT_SWIZZLE_B
  | VK_COMPONENT_SWIZZLE_A

definition VK_MEMORY_PROPERTY_DEVICE_LOCAL_BIT :: VkFlags where
  "VK_MEMORY_PROPERTY_DEVICE_LOCAL_BIT = 0x1"

definition VK_MEMORY_PROPERTY_HOST_VISIBLE_BIT :: VkFlags where
  "VK_MEMORY_PROPERTY_HOST_VISIBLE_BIT = 0x2"

definition VK_ACCESS_TRANSFER_WRITE_BIT :: VkFlags where
  "VK_ACCESS_TRANSFER_WRITE_BIT = 0x1000"

definition VK_PIPELINE_STAGE_TOP_OF_PIPE_BIT :: VkFlags where
  "VK_PIPELINE_STAGE_TOP_OF_PIPE_BIT = 0x1"

definition VK_PIPELINE_STAGE_FRAGMENT_SHADER_BIT :: VkFlags where
  "VK_PIPELINE_STAGE_FRAGMENT_SHADER_BIT = 0x80"

definition VK_PIPELINE_STAGE_TRANSFER_BIT :: VkFlags where
  "VK_PIPELINE_STAGE_TRANSFER_BIT = 0x1000"

definition VK_IMAGE_ASPECT_COLOR_BIT :: VkFlags where
  "VK_IMAGE_ASPECT_COLOR_BIT = 0x1"

definition VK_IMAGE_ASPECT_DEPTH_BIT :: VkFlags where
  "VK_IMAGE_ASPECT_DEPTH_BIT = 0x2"

subsection \<open>Structures\<close>

record VkExtent3D =
  ext_width :: uint32_t
  ext_height :: uint32_t
  ext_depth :: uint32_t

record VkOffset3D =
  off_x :: c_int
  off_y :: c_int
  off_z :: c_int

record VkBufferCreateInfo =
  bci_size :: VkDeviceSize
  bci_usage :: VkFlags

record VkImageCreateInfo =
  ici_format :: VkFormat
  ici_extent :: VkExtent3D
  ici_mipLevels :: uint32_t
  ici_arrayLayers :: uint32_t
  ici_usage :: VkFlags
  ici_initialLayout :: VkImageLayout

record VkMemoryRequirements =
  req_size :: VkDeviceSize
  req_alignment :: VkDeviceSize
  memoryTypeBits :: uint32_t

record VkMemoryAllocateInfo =
  mai_sType :: VkStructureType
  allocationSize :: VkDeviceSize
  memoryTypeIndex :: uint32_t

record VkMemoryType =
  propertyFlags :: VkFlags
  heapIndex :: uint32_t

text \<open>The memory-properties snapshot: the memory types the physical device advertises,
  in index order (\<^verbatim>\<open>memoryTypeCount\<close> is the length of the list).\<close>

record VkPhysicalDeviceMemoryProperties =
  memoryTypes :: "VkMemoryType list"

record VkComponentMapping =
  comp_r :: VkComponentSwizzle
  comp_g :: VkComponentSwizzle
  comp_b :: VkComponentSwizzle
  comp_a :: VkComponentSwizzle

record VkImageSubresourceRange =
  aspectMask :: VkFlags
  baseMipLevel :: uint32_t
  levelCount :: uint32_t
  baseArrayLayer :: uint32_t
  layerCount :: uint32_t

record VkImageSubresourceLayers =
  isl_aspectMask :: VkFlags
  isl_mipLevel :: uint32_t
  isl_baseArrayLayer :: uint32_t
  isl_layerCount :: uint32_t

record VkImageViewCreateInfo =
  ivci_sType :: VkStructureType
  ivci_image :: VkImage
  viewType :: VkImageViewType
  ivci_format :: VkFormat
  components :: VkComponentMapping
  subresourceRange :: VkImageSubresourceRange

record VkImageMemoryBarrier =
  imb_sType :: VkStructureType
  srcAccessMask :: VkFlags
  dstAccessMask :: VkFlags
  oldLayout :: VkImageLayout
  newLayout :: VkImageLayout
  srcQueueFamilyIndex :: uint32_t
  dstQueueFamilyIndex :: uint32_t
  imb_image :: VkImage
  imb_subresourceRange :: VkImageSubresourceRange

record VkBufferCopy =
  srcOffset :: VkDeviceSize
  dstOffset :: VkDeviceSize
  copy_size :: VkDeviceSize

record VkBufferImageCopy =
  bufferOffset :: VkDeviceSize
  bufferRowLength :: uint32_t
  bufferImageHeight :: uint32_t
  imageSubresource :: VkImageSubresourceLayers
  imageOffset :: VkOffset3D
  imageExtent :: VkExtent3D

subsection \<open>Recorded commands and device calls\<close>

text \<open>A command buffer is the list of commands recorded into it. The arguments of
  \<^verbatim>\<open>vkCmdPipelineBarrier\<close> are: source stage, destination stage, dependency flags,
  the number of memory barriers, the number of buffer barriers, the image barriers.\<close>

datatype vk_command =
    CmdCopyBuffer VkBuffer VkBuffer "VkBufferCopy list"
  | CmdPipelineBarrier VkFlags VkFlags VkFlags nat nat "VkImageMemoryBarrier list"
  | CmdCopyBufferToImage VkBuffer VkImage VkImageLayout "VkBufferImageCopy list"

datatype vk_call =
    CreateBuffer VkDevice VkBufferCreateInfo
  | GetBufferMemoryRequirements VkDevice VkBuffer
  | CreateImage VkDevice VkImageCreateInfo
  | GetImageMemoryRequirements VkDevice VkImage
  | AllocateMemory VkDevice VkMemoryAllocateInfo
  | BindBufferMemory VkDevice VkBuffer VkDeviceMemory VkDeviceSize
  | BindImageMemory VkDevice VkImage VkDeviceMemory VkDeviceSize
  | CreateImageView VkDevice VkImageViewCreateInfo
  | DestroyBuffer VkDevice VkBuffer
  | DestroyImage VkDevice VkImage
  | DestroyImageView VkDevice VkImageView
  | FreeMemory VkDevice VkDeviceMemory

text \<open>What the driver answers: a result code and the handle left in the output
  parameter. The wrappers have no control over it, so every statement below is about an
  arbitrary driver.\<close>

record vk_driver =
  createBuffer :: "VkDevice \<Rightarrow> VkBufferCreateInfo \<Rightarrow> VkResult \<times> VkBuffer"
  bufferMemoryRequirements :: "VkDevice \<Rightarrow> VkBuffer \<Rightarrow> VkMemoryRequirements"
  createImage :: "VkDevice \<Rightarrow> VkImageCreateInfo \<Rightarrow> VkResult \<times> VkImage"
  imageMemoryRequirements :: "VkDevice \<Rightarrow> VkImage \<Rightarrow> VkMemoryRequirements"
  allocateMemory :: "VkDevice \<Rightarrow> VkMemoryAllocateInfo \<Rightarrow> VkResult \<times> VkDeviceMemory"
  bindBufferMemory :: "VkDevice \<Rightarrow> VkBuffer \<Rightarrow> VkDeviceMemory \<Rightarrow> VkDeviceSize \<Rightarrow> VkResult"
  bindImageMemory :: "VkDevice \<Rightarrow> VkImage \<Rightarrow> VkDeviceMemory \<Rightarrow> VkDeviceSize \<Rightarrow> VkResult"
  createImageView :: "VkDevice \<Rightarrow> VkImageViewCreateInfo \<Rightarrow> VkResult \<times> VkImageView"

text \<open>The state outside the wrappers: the device calls made so far, the handles that
  are currently valid (created and not yet released), and the contents of every command
  buffer.\<close>

record vk_world =
  calls :: "vk_call list"
  live_buffers :: "VkBuffer set"
  live_images :: "VkImage set"
  live_views :: "VkImageView set"
  live_memory :: "VkDeviceMemory set"
  recorded :: "VkCommandBuffer \<Rightarrow> vk_command list"

definition called :: "vk_call \<Rightarrow> vk_world \<Rightarrow> vk_world" where
  "called c w = w\<lparr>calls := calls w @ [c]\<rparr>"

definition record_cmd :: "VkCommandBuffer \<Rightarrow> vk_command \<Rightarrow> vk_world \<Rightarrow> vk_world" where
  "record_cmd cmd c w = w\<lparr>recorded := (recorded w)(cmd := recorded w cmd @ [c])\<rparr>"

definition vkCreateBuffer ::
  "vk_driver \<Rightarrow> vk_world \<Rightarrow> VkDevice \<Rightarrow> VkBufferCreateInfo \<Rightarrow> VkResult \<times> VkBuffer \<times> vk_world" where
  "vkCreateBuffer drv w d info =
     (let (r, h) = createBuffer drv d info;
          w1 = called (CreateBuffer d info) w
      in (r, h, if r = VK_SUCCESS then w1\<lparr>live_buffers := insert h (live_buffers w1)\<rparr> else w1))"

definition vkGetBufferMemoryRequirements ::
  "vk_driver \<Rightarrow> vk_world \<Rightarrow> VkDevice \<Rightarrow> VkBuffer \<Rightarrow> VkMemoryRequirements \<times> vk_world" where
  "vkGetBufferMemoryRequirements drv w d b =
     (bufferMemoryRequirements drv d b, called (GetBufferMemoryRequirements d b) w)"

definition vkCreateImage ::
  "vk_driver \<Rightarrow> vk_world \<Rightarrow> VkDevice \<Rightarrow> VkImageCreateInfo \<Rightarrow> VkResult \<times> VkImage \<times> vk_world" where
  "vkCreateImage drv w d info =
     (let (r, h) = createImage drv d info;
          w1 = called (CreateImage d info) w
      in (r, h, if r = VK_SUCCESS then w1\<lparr>live_images := insert h (live_images w1)\<rparr> else w1))"

definition vkGetImageMemoryRequirements ::
  "vk_driver \<Rightarrow> vk_world \<Rightarrow> VkDevice \<Rightarrow> VkImage \<Rightarrow> VkMemoryRequirements \<times> vk_world" where
  "vkGetImageMemoryRequirements drv w d i =
     (imageMemoryRequirements drv d i, called (GetImageMemoryRequirements d i) w)"

definition vkAllocateMemory ::
  "vk_driver \<Rightarrow> vk_world \<Rightarrow> VkDevice \<Rightarrow> VkMemoryAllocateInfo \<Rightarrow> VkResult \<times> VkDeviceMemory \<times> vk_world" where
  "vkAllocateMemory drv w d info =
     (let (r, h) = allocateMemory drv d info;
          w1 = called (AllocateMemory d info) w
      in (r, h, if r = VK_SUCCESS then w1\<lparr>live_memory := insert h (live_memory w1)\<rparr> else w1))"

definition vkBindBufferMemory ::
  "vk_driver \<Rightarrow> vk_world \<Rightarrow> VkDevice \<Rightarrow> VkBuffer \<Rightarrow> VkDeviceMemory \<Rightarrow> VkDeviceSize \<Rightarrow> VkResult \<times> vk_world" where
  "vkBindBufferMemory drv w d b m off =
     (bindBufferMemory drv d b m off, called (BindBufferMemory d b m off) w)"

definition vkBindImageMemory ::
  "vk_driver \<Rightarrow> vk_world \<Rightarrow> VkDevice \<Rightarrow> VkImage \<Rightarrow> VkDeviceMemory \<Rightarrow> VkDeviceSize \<Rightarrow> VkResult \<times> vk_world" where
  "vkBindImageMemory drv w d i m off =
     (bindImageMemory drv d i m off, called (BindImageMemory d i m off) w)"

definition vkCreateImageView ::
  "vk_driver \<Rightarrow> vk_world \<Rightarrow> VkDevice \<Rightarrow> VkImageViewCreateInfo \<Rightarrow> VkResult \<times> VkImageView \<times> vk_world" where
  "vkCreateImageView drv w d info =
     (let (r, h) = createImageView drv d info;
          w1 = called (CreateImageView d info) w
      in (r, h, if r = VK_SUCCESS then w1\<lparr>live_views := insert h (live_views w1)\<rparr> else w1))"

definition vkDestroyBuffer :: "vk_world \<Rightarrow> VkDevice \<Rightarrow> VkBuffer \<Rightarrow> vk_world" where
  "vkDestroyBuffer w d b = (called (DestroyBuffer d b) w)\<lparr>live_buffers := live_buffers w - {b}\<rparr>"

definition vkDestroyImage :: "vk_world \<Rightarrow> VkDevice \<Rightarrow> VkImage \<Rightarrow> vk_world" where
  "vkDestroyImage w d i = (called (DestroyImage d i) w)\<lparr>live_images := live_images w - {i}\<rparr>"

definition vkDestroyImageView :: "vk_world \<Rightarrow> VkDevice \<Rightarrow> VkImageView \<Rightarrow> vk_world" where
  "vkDestroyImageView w d v = (called (DestroyImageView d v) w)\<lparr>live_views := live_views w - {v}\<rparr>"

definition vkFreeMemory :: "vk_world \<Rightarrow> VkDevice \<Rightarrow> VkDeviceMemory \<Rightarrow> vk_world" where
  "vkFreeMemory w d m = (called (FreeMemory d m) w)\<lparr>live_memory := live_memory w - {m}\<rparr>"

definition vkCmdCopyBuffer ::
  "vk_world \<Rightarrow> VkCommandBuffer \<Rightarrow> VkBuffer \<Rightarrow> VkBuffer \<Rightarrow> VkBufferCopy list \<Rightarrow> vk_world" where
  "vkCmdCopyBuffer w cmd src dst regions = record_cmd cmd (CmdCopyBuffer src dst regions) w"

definition vkCmdPipelineBarrier ::
  "vk_world \<Rightarrow> VkCommandBuffer \<Rightarrow> VkFlags \<Rightarrow> VkFlags \<Rightarrow> VkFlags \<Rightarrow> nat \<Rightarrow> nat \<Rightarrow>
   VkImageMemoryBarrier list \<Rightarrow> vk_world" where
  "vkCmdPipelineBarrier w cmd srcStage dstStage depFlags nMem nBuf imageBarriers =
     record_cmd cmd (CmdPipelineBarrier srcStage dstStage depFlags nMem nBuf imageBarriers) w"

definition vkCmdCopyBufferToImage ::
  "vk_world \<Rightarrow> VkCommandBuffer \<Rightarrow> VkBuffer \<Rightarrow> VkImage \<Rightarrow> VkImageLayout \<Rightarrow>
   VkBufferImageCopy list \<Rightarrow> vk_world" where
  "vkCmdCopyBufferToImage w cmd src dst layout regions =
     record_cmd cmd (CmdCopyBufferToImage src dst layout regions) w"

section \<open>Memory-type lookup\<close>

text \<open>
  Both constructors call \<^verbatim>\<open>Helper::memory_type_from_properties\<close> as a statement and
  pass it the address of \<^verbatim>\<open>memAllocInfo.memoryTypeIndex\<close>. Seen from the call site,
  a helper either ends the process or comes back with a result code and, possibly, a
  value written through the pointer. The constructors take the helper as a parameter.
\<close>

datatype lookup_outcome =
    Aborts
  | Returns bool "uint32_t option"

type_synonym lookup =
  "VkPhysicalDeviceMemoryProperties \<Rightarrow> uint32_t \<Rightarrow> VkFlags \<Rightarrow> lookup_outcome"

text \<open>Modelled from the spec: the condition under which
  \<^verbatim>\<open>Helper::memory_type_from_properties\<close> (Helper.cpp is not among the sources) may
  select memory type \<open>i\<close>: the snapshot has such a type, its bit is set in the requirement
  bitmask, and its flags include the required ones.\<close>

definition suitable ::
  "VkPhysicalDeviceMemoryProperties \<Rightarrow> uint32_t \<Rightarrow> VkFlags \<Rightarrow> nat \<Rightarrow> bool" where
  "suitable props typeBits requirements_mask i =
     (i < length (memoryTypes props) \<and> bit typeBits i \<and>
      propertyFlags (memoryTypes props ! i) AND requirements_mask = requirements_mask)"

text \<open>Modelled from the spec: \<^verbatim>\<open>Helper::memory_type_from_properties\<close>, which is not
  among the sources. It selects a memory-type index whose flags include the required ones
  and whose bit is set in the requirement bitmask, and fails fatally if no such type
  exists. The spec does not say which index is taken when several qualify; the model
  takes the lowest.\<close>

definition memory_type_from_properties :: lookup where
  "memory_type_from_properties props typeBits requirements_mask =
     (case List.find (suitable props typeBits requirements_mask)
             [0 ..< length (memoryTypes props)] of
        None \<Rightarrow> Aborts
      | Some i \<Rightarrow> Returns True (Some (of_nat i)))"

section \<open>Integer conversions of C\<close>

text \<open>An \<^verbatim>\<open>int\<close> stored into an unsigned field keeps its value modulo the width of
  the field.\<close>

definition to_uint32 :: "c_int \<Rightarrow> uint32_t" where
  "to_uint32 x = word_of_int (sint x)"

definition to_VkDeviceSize :: "c_int \<Rightarrow> VkDeviceSize" where
  "to_VkDeviceSize x = word_of_int (sint x)"

section \<open>BufferGPU\<close>

text \<open>A constructor either completes, giving the object and the state it leaves, or the
  process is ended inside it (which only the lookup helper can do).\<close>

datatype 'a construction =
    is_Fatal: Fatal (world_of: vk_world)
  | Constructed (object_of: 'a) (world_of: vk_world)

record BufferGPU =
  buf_device :: VkDevice
  buffer :: VkBuffer
  buf_memory :: VkDeviceMemory

definition BufferGPU_ctor ::
  "vk_driver \<Rightarrow> lookup \<Rightarrow> vk_world \<Rightarrow> VkDevice \<Rightarrow> VkPhysicalDeviceMemoryProperties \<Rightarrow>
   VkBufferCreateInfo \<Rightarrow> BufferGPU construction" where
  "BufferGPU_ctor drv helper w d memory_properties info =
     (let (r1, buffer, w1) = vkCreateBuffer drv w d info;
          (mem_reqs, w2) = vkGetBufferMemoryRequirements drv w1 d buffer;
          memAllocInfo = \<lparr>mai_sType = VK_STRUCTURE_TYPE_MEMORY_ALLOCATE_INFO,
                          allocationSize = req_size mem_reqs,
                          memoryTypeIndex = 0\<rparr>
      in case helper memory_properties (memoryTypeBits mem_reqs)
                VK_MEMORY_PROPERTY_DEVICE_LOCAL_BIT of
           Aborts \<Rightarrow> Fatal w2
         | Returns rc written \<Rightarrow>
             (let memAllocInfo =
                    (case written of
                       None \<Rightarrow> memAllocInfo
                     | Some i \<Rightarrow> memAllocInfo\<lparr>memoryTypeIndex := i\<rparr>);
                  (r2, memory, w3) = vkAllocateMemory drv w2 d memAllocInfo;
                  (r3, w4) = vkBindBufferMemory drv w3 d buffer memory 0
              in Constructed \<lparr>buf_device = d, buffer = buffer, buf_memory = memory\<rparr> w4))"

definition BufferGPU_dtor :: "BufferGPU \<Rightarrow> vk_world \<Rightarrow> vk_world" where
  "BufferGPU_dtor this w =
     (let w1 = vkDestroyBuffer w (buf_device this) (buffer this);
          w2 = vkFreeMemory w1 (buf_device this) (buf_memory this)
      in w2)"

definition BufferGPU_Store ::
  "BufferGPU \<Rightarrow> vk_world \<Rightarrow> VkCommandBuffer \<Rightarrow> VkBuffer \<Rightarrow> c_int \<Rightarrow> BufferGPU \<times> vk_world" where
  "BufferGPU_Store this w cmd cpuBuffer sizeInBytes =
     (let copyRegion = \<lparr>srcOffset = 0, dstOffset = 0, copy_size = 0\<rparr>;
          copyRegion = copyRegion\<lparr>copy_size := to_VkDeviceSize sizeInBytes\<rparr>;
          w1 = vkCmdCopyBuffer w cmd cpuBuffer (buffer this) [copyRegion]
      in (this, w1))"

section \<open>TextureGPU\<close>

record TextureGPU =
  tex_device :: VkDevice
  image :: VkImage
  tex_memory :: VkDeviceMemory
  imageView :: VkImageView
  viewCreateInfo :: VkImageViewCreateInfo

definition TextureGPU_ctor ::
  "vk_driver \<Rightarrow> lookup \<Rightarrow> vk_world \<Rightarrow> VkDevice \<Rightarrow> VkPhysicalDeviceMemoryProperties \<Rightarrow>
   VkImageCreateInfo \<Rightarrow> VkFlags \<Rightarrow> TextureGPU construction" where
  "TextureGPU_ctor drv helper w d memory_properties image_create_info aspect =
     (let (r1, image, w1) = vkCreateImage drv w d image_create_info;
          (mem_reqs, w2) = vkGetImageMemoryRequirements drv w1 d image;
          memAllocInfo = \<lparr>mai_sType = VK_STRUCTURE_TYPE_MEMORY_ALLOCATE_INFO,
                          allocationSize = req_size mem_reqs,
                          memoryTypeIndex = 0\<rparr>
      in case helper memory_properties (memoryTypeBits mem_reqs)
                VK_MEMORY_PROPERTY_DEVICE_LOCAL_BIT of
           Aborts \<Rightarrow> Fatal w2
         | Returns rc written \<Rightarrow>
             (let memAllocInfo =
                    (case written of
                       None \<Rightarrow> memAllocInfo
                     | Some i \<Rightarrow> memAllocInfo\<lparr>memoryTypeIndex := i\<rparr>);
                  (r2, memory, w3) = vkAllocateMemory drv w2 d memAllocInfo;
                  (r3, w4) = vkBindImageMemory drv w3 d image memory 0;
                  viewInfo =
                    \<lparr>ivci_sType = VK_STRUCTURE_TYPE_IMAGE_VIEW_CREATE_INFO,
                     ivci_image = image,
                     viewType = VK_IMAGE_VIEW_TYPE_2D,
                     ivci_format = ici_format image_create_info,
                     components = \<lparr>comp_r = VK_COMPONENT_SWIZZLE_R,
                                   comp_g = VK_COMPONENT_SWIZZLE_G,
                                   comp_b = VK_COMPONENT_SWIZZLE_B,
                                   comp_a = VK_COMPONENT_SWIZZLE_A\<rparr>,
                     subresourceRange = \<lparr>aspectMask = aspect,
                                         baseMipLevel = 0,
                                         levelCount = 1,
                                         baseArrayLayer = 0,
                                         layerCount = 1\<rparr>\<rparr>;
                  (r4, imageView, w5) = vkCreateImageView drv w4 d viewInfo
              in Constructed \<lparr>tex_device = d, image = image, tex_memory = memory,
                              imageView = imageView, viewCreateInfo = viewInfo\<rparr> w5))"

definition TextureGPU_dtor :: "TextureGPU \<Rightarrow> vk_world \<Rightarrow> vk_world" where
  "TextureGPU_dtor this w =
     (let w1 = vkFreeMemory w (tex_device this) (tex_memory this);
          w2 = vkDestroyImage w1 (tex_device this) (image this);
          w3 = vkDestroyImageView w2 (tex_device this) (imageView this)
      in w3)"

definition TextureGPU_Store ::
  "TextureGPU \<Rightarrow> vk_world \<Rightarrow> VkCommandBuffer \<Rightarrow> VkBuffer \<Rightarrow> c_int \<Rightarrow> c_int \<Rightarrow>
   TextureGPU \<times> vk_world" where
  "TextureGPU_Store this w cmd cpuBuffer width height =
     (let image_memory_barrier =
            \<lparr>imb_sType = VK_STRUCTURE_TYPE_IMAGE_MEMORY_BARRIER,
             srcAccessMask = 0,
             dstAccessMask = VK_ACCESS_TRANSFER_WRITE_BIT,
             oldLayout = VK_IMAGE_LAYOUT_PREINITIALIZED,
             newLayout = VK_IMAGE_LAYOUT_TRANSFER_DST_OPTIMAL,
             srcQueueFamilyIndex = 0,
             dstQueueFamilyIndex = 0,
             imb_image = ivci_image (viewCreateInfo this),
             imb_subresourceRange = subresourceRange (viewCreateInfo this)\<rparr>;
          w1 = vkCmdPipelineBarrier w cmd
                 VK_PIPELINE_STAGE_TOP_OF_PIPE_BIT VK_PIPELINE_STAGE_TRANSFER_BIT
                 0 0 0 [image_memory_barrier];
          copy_region =
            \<lparr>bufferOffset = 0,
             bufferRowLength = to_uint32 width,
             bufferImageHeight = to_uint32 height,
             imageSubresource =
               \<lparr>isl_aspectMask = aspectMask (subresourceRange (viewCreateInfo this)),
                isl_mipLevel = 0, isl_baseArrayLayer = 0, isl_layerCount = 1\<rparr>,
             imageOffset = \<lparr>off_x = 0, off_y = 0, off_z = 0\<rparr>,
             imageExtent = \<lparr>ext_width = to_uint32 width, ext_height = to_uint32 height,
                            ext_depth = 1\<rparr>\<rparr>;
          w2 = vkCmdCopyBufferToImage w1 cmd cpuBuffer (image this)
                 VK_IMAGE_LAYOUT_TRANSFER_DST_OPTIMAL [copy_region];
          image_memory_barrier =
            image_memory_barrier
              \<lparr>srcAccessMask := VK_ACCESS_TRANSFER_WRITE_BIT,
               dstAccessMask := 0,
               oldLayout := VK_IMAGE_LAYOUT_TRANSFER_DST_OPTIMAL,
               newLayout := VK_IMAGE_LAYOUT_SHADER_READ_ONLY_OPTIMAL\<rparr>;
          w3 = vkCmdPipelineBarrier w2 cmd
                 VK_PIPELINE_STAGE_TRANSFER_BIT VK_PIPELINE_STAGE_FRAGMENT_SHADER_BIT
                 0 0 0 [image_memory_barrier]
      in (this, w3))"

section \<open>Reading a command buffer\<close>

fun image_barriers :: "vk_command \<Rightarrow> VkImageMemoryBarrier list" where
  "image_barriers (CmdPipelineBarrier s d f m b ibs) = ibs"
| "image_barriers (CmdCopyBuffer s d rs) = []"
| "image_barriers (CmdCopyBufferToImage s d l rs) = []"

fun image_copy_regions :: "vk_command \<Rightarrow> VkBufferImageCopy list" where
  "image_copy_regions (CmdCopyBufferToImage s d l rs) = rs"
| "image_copy_regions (CmdCopyBuffer s d rs) = []"
| "image_copy_regions (CmdPipelineBarrier s d f m b ibs) = []"

fun buffer_copy_regions :: "vk_command \<Rightarrow> VkBufferCopy list" where
  "buffer_copy_regions (CmdCopyBuffer s d rs) = rs"
| "buffer_copy_regions (CmdCopyBufferToImage s d l rs) = []"
| "buffer_copy_regions (CmdPipelineBarrier s d f m b ibs) = []"

section \<open>Concrete inputs\<close>

text \<open>An empty world, a driver that accepts every call, a driver that is out of device
  memory, a snapshot with a device-local type at index 1, and one without any.\<close>

definition world0 :: vk_world where
  "world0 = \<lparr>calls = [], live_buffers = {}, live_images = {}, live_views = {},
             live_memory = {}, recorded = (\<lambda>_. [])\<rparr>"

definition reqs0 :: VkMemoryRequirements where
  "reqs0 = \<lparr>req_size = 1024, req_alignment = 256, memoryTypeBits = 3\<rparr>"

definition drv_ok :: vk_driver where
  "drv_ok = \<lparr>createBuffer = (\<lambda>d info. (VK_SUCCESS, 7)),
            bufferMemoryRequirements = (\<lambda>d b. reqs0),
            createImage = (\<lambda>d info. (VK_SUCCESS, 3)),
            imageMemoryRequirements = (\<lambda>d i. reqs0),
            allocateMemory = (\<lambda>d info. (VK_SUCCESS, 8)),
            bindBufferMemory = (\<lambda>d b m off. VK_SUCCESS),
            bindImageMemory = (\<lambda>d i m off. VK_SUCCESS),
            createImageView = (\<lambda>d info. (VK_SUCCESS, 5))\<rparr>"

definition drv_oom :: vk_driver where
  "drv_oom = drv_ok\<lparr>allocateMemory := (\<lambda>d info. (VK_ERROR_OUT_OF_DEVICE_MEMORY, 0))\<rparr>"

definition props0 :: VkPhysicalDeviceMemoryProperties where
  "props0 = \<lparr>memoryTypes = [\<lparr>propertyFlags = 0x6, heapIndex = 1\<rparr>,
                            \<lparr>propertyFlags = 0x1, heapIndex = 0\<rparr>]\<rparr>"

definition props_host_only :: VkPhysicalDeviceMemoryProperties where
  "props_host_only = \<lparr>memoryTypes = [\<lparr>propertyFlags = 0x6, heapIndex = 0\<rparr>]\<rparr>"

text \<open>A driver that accepts every call except allocations above 1 GiB.\<close>

definition drv_limited :: vk_driver where
  "drv_limited =
     drv_ok\<lparr>allocateMemory :=
              (\<lambda>d info. if allocationSize info \<le> 0x40000000 then (VK_SUCCESS, 8)
                         else (VK_ERROR_OUT_OF_DEVICE_MEMORY, 0))\<rparr>"

definition binfo0 :: VkBufferCreateInfo where
  "binfo0 = \<lparr>bci_size = 1024, bci_usage = 0x82\<rparr>"

definition iinfo0 :: VkImageCreateInfo where
  "iinfo0 = \<lparr>ici_format = 37,
             ici_extent = \<lparr>ext_width = 256, ext_height = 256, ext_depth = 1\<rparr>,
             ici_mipLevels = 1, ici_arrayLayers = 1, ici_usage = 0x6,
             ici_initialLayout = VK_IMAGE_LAYOUT_PREINITIALIZED\<rparr>"

definition buf0 :: BufferGPU where
  "buf0 = \<lparr>buf_device = 1, buffer = 7, buf_memory = 8\<rparr>"

definition tex0 :: TextureGPU where
  "tex0 = \<lparr>tex_device = 1, image = 3, tex_memory = 8, imageView = 5,
           viewCreateInfo =
             \<lparr>ivci_sType = VK_STRUCTURE_TYPE_IMAGE_VIEW_CREATE_INFO,
              ivci_image = 3,
              viewType = VK_IMAGE_VIEW_TYPE_2D,
              ivci_format = 37,
              components = \<lparr>comp_r = VK_COMPONENT_SWIZZLE_R, comp_g = VK_COMPONENT_SWIZZLE_G,
                            comp_b = VK_COMPONENT_SWIZZLE_B, comp_a = VK_COMPONENT_SWIZZLE_A\<rparr>,
              subresourceRange = \<lparr>aspectMask = VK_IMAGE_ASPECT_COLOR_BIT, baseMipLevel = 0,
                                  levelCount = 1, baseArrayLayer = 0, layerCount = 1\<rparr>\<rparr>\<rparr>"

section \<open>Facts about the model\<close>

lemmas cmd_defs =
  vkCmdPipelineBarrier_def vkCmdCopyBufferToImage_def vkCmdCopyBuffer_def record_cmd_def

lemmas api_defs =
  vkCreateBuffer_def vkGetBufferMemoryRequirements_def vkCreateImage_def
  vkGetImageMemoryRequirements_def vkAllocateMemory_def vkBindBufferMemory_def
  vkBindImageMemory_def vkCreateImageView_def called_def

lemmas release_defs =
  vkDestroyBuffer_def vkFreeMemory_def vkDestroyImage_def vkDestroyImageView_def called_def

lemma TextureGPU_Store_recorded:
  "recorded (snd (TextureGPU_Store this w cmd cpuBuffer width height)) cmd =
     recorded w cmd @
     [CmdPipelineBarrier VK_PIPELINE_STAGE_TOP_OF_PIPE_BIT VK_PIPELINE_STAGE_TRANSFER_BIT 0 0 0
        [\<lparr>imb_sType = VK_STRUCTURE_TYPE_IMAGE_MEMORY_BARRIER,
          srcAccessMask = 0,
          dstAccessMask = VK_ACCESS_TRANSFER_WRITE_BIT,
          oldLayout = VK_IMAGE_LAYOUT_PREINITIALIZED,
          newLayout = VK_IMAGE_LAYOUT_TRANSFER_DST_OPTIMAL,
          srcQueueFamilyIndex = 0,
          dstQueueFamilyIndex = 0,
          imb_image = ivci_image (viewCreateInfo this),
          imb_subresourceRange = subresourceRange (viewCreateInfo this)\<rparr>],
      CmdCopyBufferToImage cpuBuffer (image this) VK_IMAGE_LAYOUT_TRANSFER_DST_OPTIMAL
        [\<lparr>bufferOffset = 0,
          bufferRowLength = to_uint32 width,
          bufferImageHeight = to_uint32 height,
          imageSubresource =
            \<lparr>isl_aspectMask = aspectMask (subresourceRange (viewCreateInfo this)),
             isl_mipLevel = 0, isl_baseArrayLayer = 0, isl_layerCount = 1\<rparr>,
          imageOffset = \<lparr>off_x = 0, off_y = 0, off_z = 0\<rparr>,
          imageExtent = \<lparr>ext_width = to_uint32 width, ext_height = to_uint32 height,
                         ext_depth = 1\<rparr>\<rparr>],
      CmdPipelineBarrier VK_PIPELINE_STAGE_TRANSFER_BIT VK_PIPELINE_STAGE_FRAGMENT_SHADER_BIT 0 0 0
        [\<lparr>imb_sType = VK_STRUCTURE_TYPE_IMAGE_MEMORY_BARRIER,
          srcAccessMask = VK_ACCESS_TRANSFER_WRITE_BIT,
          dstAccessMask = 0,
          oldLayout = VK_IMAGE_LAYOUT_TRANSFER_DST_OPTIMAL,
          newLayout = VK_IMAGE_LAYOUT_SHADER_READ_ONLY_OPTIMAL,
          srcQueueFamilyIndex = 0,
          dstQueueFamilyIndex = 0,
          imb_image = ivci_image (viewCreateInfo this),
          imb_subresourceRange = subresourceRange (viewCreateInfo this)\<rparr>]]"
  by (simp add: TextureGPU_Store_def Let_def cmd_defs)

lemma TextureGPU_Store_frame:
  "TextureGPU_Store this w cmd cpuBuffer width height =
     (this, w\<lparr>recorded := (recorded w)
                 (cmd := recorded (snd (TextureGPU_Store this w cmd cpuBuffer width height)) cmd)\<rparr>)"
  by (simp add: TextureGPU_Store_def Let_def cmd_defs)

lemma BufferGPU_Store_recorded:
  "recorded (snd (BufferGPU_Store this w cmd cpuBuffer sizeInBytes)) cmd =
     recorded w cmd @
     [CmdCopyBuffer cpuBuffer (buffer this)
        [\<lparr>srcOffset = 0, dstOffset = 0, copy_size = to_VkDeviceSize sizeInBytes\<rparr>]]"
  by (simp add: BufferGPU_Store_def Let_def cmd_defs)

lemma BufferGPU_Store_frame:
  "BufferGPU_Store this w cmd cpuBuffer sizeInBytes =
     (this, w\<lparr>recorded := (recorded w)
                 (cmd := recorded (snd (BufferGPU_Store this w cmd cpuBuffer sizeInBytes)) cmd)\<rparr>)"
  by (simp add: BufferGPU_Store_def Let_def cmd_defs)

lemma BufferGPU_Store_live:
  "live_buffers (snd (BufferGPU_Store b w cmd cpuBuffer sizeInBytes)) = live_buffers w"
  "live_memory (snd (BufferGPU_Store b w cmd cpuBuffer sizeInBytes)) = live_memory w"
  by (simp_all add: BufferGPU_Store_def Let_def cmd_defs)

lemma TextureGPU_Store_live:
  "live_images (snd (TextureGPU_Store t w cmd cpuBuffer width height)) = live_images w"
  "live_memory (snd (TextureGPU_Store t w cmd cpuBuffer width height)) = live_memory w"
  "live_views (snd (TextureGPU_Store t w cmd cpuBuffer width height)) = live_views w"
  by (simp_all add: TextureGPU_Store_def Let_def cmd_defs)

lemma uint_to_uint32: "uint (to_uint32 x) = sint x mod 2 ^ 32"
  unfolding to_uint32_def by (subst uint_word_of_int) simp

lemma uint_to_VkDeviceSize: "uint (to_VkDeviceSize x) = sint x mod 2 ^ 64"
  unfolding to_VkDeviceSize_def by (subst uint_word_of_int) simp

lemma to_VkDeviceSize_nonneg:
  assumes "0 \<le> sint x"
  shows "uint (to_VkDeviceSize x) = sint x"
proof -
  have "sint x < 2 ^ (LENGTH(32) - 1)" by (rule sint_lt)
  then have "sint x < 2 ^ 64" by simp
  with assms show ?thesis by (simp add: uint_to_VkDeviceSize)
qed

lemma BufferGPU_dtor_calls:
  "calls (BufferGPU_dtor b w) = calls w @
      [DestroyBuffer (buf_device b) (buffer b), FreeMemory (buf_device b) (buf_memory b)]"
  by (simp add: BufferGPU_dtor_def Let_def release_defs)

lemma TextureGPU_dtor_calls:
  "calls (TextureGPU_dtor t w) = calls w @
      [FreeMemory (tex_device t) (tex_memory t), DestroyImage (tex_device t) (image t),
       DestroyImageView (tex_device t) (imageView t)]"
  by (simp add: TextureGPU_dtor_def Let_def release_defs)

lemma BufferGPU_dtor_live:
  "live_buffers (BufferGPU_dtor b w) = live_buffers w - {buffer b}"
  "live_memory (BufferGPU_dtor b w) = live_memory w - {buf_memory b}"
  by (simp_all add: BufferGPU_dtor_def Let_def release_defs)

lemma TextureGPU_dtor_live:
  "live_images (TextureGPU_dtor t w) = live_images w - {image t}"
  "live_memory (TextureGPU_dtor t w) = live_memory w - {tex_memory t}"
  "live_views (TextureGPU_dtor t w) = live_views w - {imageView t}"
  by (simp_all add: TextureGPU_dtor_def Let_def release_defs)

lemma lookup_Aborts_iff:
  "memory_type_from_properties props bits req = Aborts \<longleftrightarrow> (\<forall>i. \<not> suitable props bits req i)"
proof -
  have "(List.find (suitable props bits req) [0 ..< length (memoryTypes props)] = None) =
        (\<forall>i. \<not> suitable props bits req i)"
    by (auto simp: find_None_iff suitable_def)
  then show ?thesis
    unfolding memory_type_from_properties_def
    by (cases "List.find (suitable props bits req) [0 ..< length (memoryTypes props)]") auto
qed

lemma lookup_Returns:
  assumes "memory_type_from_properties props bits req = Returns rc written"
  shows "\<exists>i. written = Some (of_nat i) \<and> suitable props bits req i \<and>
             unat (of_nat i :: 32 word) = i"
proof -
  from assms obtain i
    where f: "List.find (suitable props bits req) [0 ..< length (memoryTypes props)] = Some i"
      and w: "written = Some (of_nat i)"
    by (auto simp: memory_type_from_properties_def split: option.splits)
  from f have s: "suitable props bits req i" by (auto simp: find_Some_iff)
  then have "bit bits i" by (simp add: suitable_def)
  then have "i < LENGTH(32)" by (rule bit_imp_le_length)
  then have "i < 2 ^ 32" by simp
  then have "unat (of_nat i :: 32 word) = i" by (simp add: unat_of_nat)
  with w s show ?thesis by blast
qed

lemma BufferGPU_ctor_Aborts:
  "helper props (memoryTypeBits (bufferMemoryRequirements drv d (snd (createBuffer drv d info))))
      VK_MEMORY_PROPERTY_DEVICE_LOCAL_BIT = Aborts \<Longrightarrow>
   \<exists>w'. BufferGPU_ctor drv helper w d props info = Fatal w' \<and>
        calls w' = calls w @ [CreateBuffer d info,
                              GetBufferMemoryRequirements d (snd (createBuffer drv d info))]"
  by (simp add: BufferGPU_ctor_def api_defs Let_def split_def)

lemma BufferGPU_ctor_Returns:
  "helper props (memoryTypeBits (bufferMemoryRequirements drv d (snd (createBuffer drv d info))))
      VK_MEMORY_PROPERTY_DEVICE_LOCAL_BIT = Returns rc written \<Longrightarrow>
   (let b = snd (createBuffer drv d info);
        ai = \<lparr>mai_sType = VK_STRUCTURE_TYPE_MEMORY_ALLOCATE_INFO,
              allocationSize = req_size (bufferMemoryRequirements drv d b),
              memoryTypeIndex = (case written of None \<Rightarrow> 0 | Some i \<Rightarrow> i)\<rparr>;
        m = snd (allocateMemory drv d ai)
    in \<exists>w'. BufferGPU_ctor drv helper w d props info =
               Constructed \<lparr>buf_device = d, buffer = b, buf_memory = m\<rparr> w' \<and>
             calls w' = calls w @ [CreateBuffer d info, GetBufferMemoryRequirements d b,
                                   AllocateMemory d ai, BindBufferMemory d b m 0] \<and>
             live_buffers w' = (if fst (createBuffer drv d info) = VK_SUCCESS
                                then insert b (live_buffers w) else live_buffers w) \<and>
             live_memory w' = (if fst (allocateMemory drv d ai) = VK_SUCCESS
                               then insert m (live_memory w) else live_memory w) \<and>
             live_images w' = live_images w \<and> live_views w' = live_views w \<and>
             recorded w' = recorded w)"
  by (simp add: BufferGPU_ctor_def api_defs Let_def split_def split: option.splits)

lemma TextureGPU_ctor_Aborts:
  "helper props (memoryTypeBits (imageMemoryRequirements drv d (snd (createImage drv d info))))
      VK_MEMORY_PROPERTY_DEVICE_LOCAL_BIT = Aborts \<Longrightarrow>
   \<exists>w'. TextureGPU_ctor drv helper w d props info aspect = Fatal w' \<and>
        calls w' = calls w @ [CreateImage d info,
                              GetImageMemoryRequirements d (snd (createImage drv d info))]"
  by (simp add: TextureGPU_ctor_def api_defs Let_def split_def)

lemma TextureGPU_ctor_Returns:
  "helper props (memoryTypeBits (imageMemoryRequirements drv d (snd (createImage drv d info))))
      VK_MEMORY_PROPERTY_DEVICE_LOCAL_BIT = Returns rc written \<Longrightarrow>
   (let i = snd (createImage drv d info);
        ai = \<lparr>mai_sType = VK_STRUCTURE_TYPE_MEMORY_ALLOCATE_INFO,
              allocationSize = req_size (imageMemoryRequirements drv d i),
              memoryTypeIndex = (case written of None \<Rightarrow> 0 | Some k \<Rightarrow> k)\<rparr>;
        m = snd (allocateMemory drv d ai);
        vi = \<lparr>ivci_sType = VK_STRUCTURE_TYPE_IMAGE_VIEW_CREATE_INFO,
              ivci_image = i,
              viewType = VK_IMAGE_VIEW_TYPE_2D,
              ivci_format = ici_format info,
              components = \<lparr>comp_r = VK_COMPONENT_SWIZZLE_R, comp_g = VK_COMPONENT_SWIZZLE_G,
                            comp_b = VK_COMPONENT_SWIZZLE_B, comp_a = VK_COMPONENT_SWIZZLE_A\<rparr>,
              subresourceRange = \<lparr>aspectMask = aspect, baseMipLevel = 0, levelCount = 1,
                                  baseArrayLayer = 0, layerCount = 1\<rparr>\<rparr>;
        v = snd (createImageView drv d vi)
    in \<exists>w'. TextureGPU_ctor drv helper w d props info aspect =
               Constructed \<lparr>tex_device = d, image = i, tex_memory = m, imageView = v,
                             viewCreateInfo = vi\<rparr> w' \<and>
             calls w' = calls w @ [CreateImage d info, GetImageMemoryRequirements d i,
                                   AllocateMemory d ai, BindImageMemory d i m 0,
                                   CreateImageView d vi] \<and>
             live_images w' = (if fst (createImage drv d info) = VK_SUCCESS
                               then insert i (live_images w) else live_images w) \<and>
             live_memory w' = (if fst (allocateMemory drv d ai) = VK_SUCCESS
                               then insert m (live_memory w) else live_memory w) \<and>
             live_views w' = (if fst (createImageView drv d vi) = VK_SUCCESS
                              then insert v (live_views w) else live_views w) \<and>
             live_buffers w' = live_buffers w \<and> recorded w' = recorded w)"
  by (simp add: TextureGPU_ctor_def api_defs Let_def split_def split: option.splits)

lemma BufferGPU_ctor_Fatal_iff:
  "(\<exists>w'. BufferGPU_ctor drv helper w d props info = Fatal w') =
   (helper props (memoryTypeBits (bufferMemoryRequirements drv d (snd (createBuffer drv d info))))
      VK_MEMORY_PROPERTY_DEVICE_LOCAL_BIT = Aborts)"
  by (simp add: BufferGPU_ctor_def api_defs Let_def split_def split: lookup_outcome.splits)

lemma TextureGPU_ctor_Fatal_iff:
  "(\<exists>w'. TextureGPU_ctor drv helper w d props info aspect = Fatal w') =
   (helper props (memoryTypeBits (imageMemoryRequirements drv d (snd (createImage drv d info))))
      VK_MEMORY_PROPERTY_DEVICE_LOCAL_BIT = Aborts)"
  by (simp add: TextureGPU_ctor_def api_defs Let_def split_def split: lookup_outcome.splits)

lemma BufferGPU_ctor_Constructed:
  assumes "BufferGPU_ctor drv helper w d props info = Constructed t w'"
  shows "\<exists>rc written.
           helper props
             (memoryTypeBits (bufferMemoryRequirements drv d (snd (createBuffer drv d info))))
             VK_MEMORY_PROPERTY_DEVICE_LOCAL_BIT = Returns rc written"
proof (cases "helper props
             (memoryTypeBits (bufferMemoryRequirements drv d (snd (createBuffer drv d info))))
             VK_MEMORY_PROPERTY_DEVICE_LOCAL_BIT")
  case Aborts
  from BufferGPU_ctor_Aborts
         [where helper = helper and props = props and drv = drv and d = d and info = info
            and w = w, OF this]
       assms
  show ?thesis by auto
next
  case (Returns rc written)
  then show ?thesis by blast
qed

lemma TextureGPU_ctor_Constructed:
  assumes "TextureGPU_ctor drv helper w d props info aspect = Constructed t w'"
  shows "\<exists>rc written.
           helper props
             (memoryTypeBits (imageMemoryRequirements drv d (snd (createImage drv d info))))
             VK_MEMORY_PROPERTY_DEVICE_LOCAL_BIT = Returns rc written"
proof (cases "helper props
             (memoryTypeBits (imageMemoryRequirements drv d (snd (createImage drv d info))))
             VK_MEMORY_PROPERTY_DEVICE_LOCAL_BIT")
  case Aborts
  from TextureGPU_ctor_Aborts
         [where helper = helper and props = props and drv = drv and d = d and info = info
            and w = w and aspect = aspect, OF this]
       assms
  show ?thesis by auto
next
  case (Returns rc written)
  then show ?thesis by blast
qed

lemma lookup_props0:
  "memory_type_from_properties props0 3 VK_MEMORY_PROPERTY_DEVICE_LOCAL_BIT =
     Returns True (Some 1)"
  by (simp add: memory_type_from_properties_def props0_def suitable_def
        VK_MEMORY_PROPERTY_DEVICE_LOCAL_BIT_def upt_conv_Cons)

lemma lookup_props_host_only:
  "memory_type_from_properties props_host_only 3 VK_MEMORY_PROPERTY_DEVICE_LOCAL_BIT = Aborts"
  by (simp add: memory_type_from_properties_def props_host_only_def suitable_def
        VK_MEMORY_PROPERTY_DEVICE_LOCAL_BIT_def upt_conv_Cons)

lemma drv_ok_bits:
  "memoryTypeBits (bufferMemoryRequirements drv_ok d b) = 3"
  "memoryTypeBits (imageMemoryRequirements drv_ok d i) = 3"
  by (simp_all add: drv_ok_def reqs0_def)

lemma world0_sel:
  "calls world0 = []" "live_buffers world0 = {}" "live_images world0 = {}"
  "live_views world0 = {}" "live_memory world0 = {}" "recorded world0 cmd = []"
  by (simp_all add: world0_def)

lemma drv_ok_answers:
  "createBuffer drv_ok d binfo = (VK_SUCCESS, 7)"
  "createImage drv_ok d iinfo = (VK_SUCCESS, 3)"
  "allocateMemory drv_ok d ai = (VK_SUCCESS, 8)"
  "createImageView drv_ok d vi = (VK_SUCCESS, 5)"
  "req_size (bufferMemoryRequirements drv_ok d b) = 1024"
  "req_size (imageMemoryRequirements drv_ok d i) = 1024"
  by (simp_all add: drv_ok_def reqs0_def)

lemma drv_oom_answers:
  "createBuffer drv_oom d binfo = (VK_SUCCESS, 7)"
  "createImage drv_oom d iinfo = (VK_SUCCESS, 3)"
  "allocateMemory drv_oom d ai = (VK_ERROR_OUT_OF_DEVICE_MEMORY, 0)"
  "createImageView drv_oom d vi = (VK_SUCCESS, 5)"
  "req_size (bufferMemoryRequirements drv_oom d b) = 1024"
  "req_size (imageMemoryRequirements drv_oom d i) = 1024"
  "memoryTypeBits (imageMemoryRequirements drv_oom d i) = 3"
  by (simp_all add: drv_oom_def drv_ok_def reqs0_def)

lemma drv_oom_bits:
  "memoryTypeBits (bufferMemoryRequirements drv_oom d b) = 3"
  by (simp add: drv_oom_def drv_ok_def reqs0_def)

lemma drv_limited_answers:
  "createBuffer drv_limited d binfo = (VK_SUCCESS, 7)"
  "createImage drv_limited d iinfo = (VK_SUCCESS, 3)"
  "allocateMemory drv_limited d ai =
     (if allocationSize ai \<le> 0x40000000 then (VK_SUCCESS, 8)
      else (VK_ERROR_OUT_OF_DEVICE_MEMORY, 0))"
  "createImageView drv_limited d vi = (VK_SUCCESS, 5)"
  "req_size (bufferMemoryRequirements drv_limited d b) = 1024"
  "req_size (imageMemoryRequirements drv_limited d i) = 1024"
  "memoryTypeBits (bufferMemoryRequirements drv_limited d b) = 3"
  "memoryTypeBits (imageMemoryRequirements drv_limited d i) = 3"
  by (simp_all add: drv_limited_def drv_ok_def reqs0_def)

section \<open>Recording an image upload\<close>

text \<open>C1. Every call of \<^verbatim>\<open>TextureGPU::Store\<close> appends exactly three commands to the
  command buffer it is given, in this order: a pipeline barrier from top-of-pipe to
  transfer whose image barrier takes the access mask from 0 to transfer-write and the
  layout from preinitialized to transfer-destination-optimal; one buffer-to-image copy;
  a pipeline barrier from transfer to fragment-shader whose image barrier takes the
  access mask from transfer-write to 0 and the layout from transfer-destination-optimal
  to shader-read-only-optimal.\<close>

theorem TextureGPU_Store_barrier_copy_barrier:
  "\<exists>pre region post.
     recorded (snd (TextureGPU_Store this w cmd cpuBuffer width height)) cmd =
       recorded w cmd @
       [CmdPipelineBarrier VK_PIPELINE_STAGE_TOP_OF_PIPE_BIT VK_PIPELINE_STAGE_TRANSFER_BIT
          0 0 0 [pre],
        CmdCopyBufferToImage cpuBuffer (image this) VK_IMAGE_LAYOUT_TRANSFER_DST_OPTIMAL
          [region],
        CmdPipelineBarrier VK_PIPELINE_STAGE_TRANSFER_BIT VK_PIPELINE_STAGE_FRAGMENT_SHADER_BIT
          0 0 0 [post]] \<and>
     srcAccessMask pre = 0 \<and>
     dstAccessMask pre = VK_ACCESS_TRANSFER_WRITE_BIT \<and>
     oldLayout pre = VK_IMAGE_LAYOUT_PREINITIALIZED \<and>
     newLayout pre = VK_IMAGE_LAYOUT_TRANSFER_DST_OPTIMAL \<and>
     srcAccessMask post = VK_ACCESS_TRANSFER_WRITE_BIT \<and>
     dstAccessMask post = 0 \<and>
     oldLayout post = VK_IMAGE_LAYOUT_TRANSFER_DST_OPTIMAL \<and>
     newLayout post = VK_IMAGE_LAYOUT_SHADER_READ_ONLY_OPTIMAL"
  unfolding TextureGPU_Store_recorded
  apply (intro exI conjI)
          apply (rule refl)
         apply simp_all
  done

text \<open>C2, as the spec states it, fails: the copy region does not carry 0 in
  \<^verbatim>\<open>bufferRowLength\<close> and \<^verbatim>\<open>bufferImageHeight\<close>. For a 256 by 256 upload both
  hold 256.\<close>

theorem TextureGPU_Store_row_length_counterexample:
  "map bufferRowLength (concat (map image_copy_regions
      (recorded (snd (TextureGPU_Store tex0 world0 0 5 256 256)) 0))) = [256] \<and>
   map bufferImageHeight (concat (map image_copy_regions
      (recorded (snd (TextureGPU_Store tex0 world0 0 5 256 256)) 0))) = [256] \<and>
   (256 :: uint32_t) \<noteq> 0"
  by (simp add: TextureGPU_Store_recorded world0_def to_uint32_def)

text \<open>C2, amended. The one copy that \<^verbatim>\<open>TextureGPU::Store\<close> records reads from the
  staging buffer at offset 0 and writes the wrapper's image in layout
  transfer-destination-optimal; its region has \<^verbatim>\<open>bufferRowLength\<close> and
  \<^verbatim>\<open>bufferImageHeight\<close> equal to \<open>width\<close> and \<open>height\<close> (converted to unsigned 32-bit),
  which are also the width and height of the image extent, so a row of the source is as
  long as a row of the copied extent; the subresource is the cached aspect mask, mip level
  0, base array layer 0, layer count 1; the image offset is 0 and the extent is
  \<open>width\<close>, \<open>height\<close>, 1.\<close>

theorem TextureGPU_Store_copy_region:
  "\<exists>pre post.
     recorded (snd (TextureGPU_Store this w cmd cpuBuffer width height)) cmd =
       recorded w cmd @
       [pre,
        CmdCopyBufferToImage cpuBuffer (image this) VK_IMAGE_LAYOUT_TRANSFER_DST_OPTIMAL
          [\<lparr>bufferOffset = 0,
            bufferRowLength = to_uint32 width,
            bufferImageHeight = to_uint32 height,
            imageSubresource =
              \<lparr>isl_aspectMask = aspectMask (subresourceRange (viewCreateInfo this)),
               isl_mipLevel = 0, isl_baseArrayLayer = 0, isl_layerCount = 1\<rparr>,
            imageOffset = \<lparr>off_x = 0, off_y = 0, off_z = 0\<rparr>,
            imageExtent = \<lparr>ext_width = to_uint32 width, ext_height = to_uint32 height,
                           ext_depth = 1\<rparr>\<rparr>],
        post] \<and>
     image_copy_regions pre = [] \<and> image_copy_regions post = [] \<and>
     uint (to_uint32 width) = sint width mod 2 ^ 32 \<and>
     uint (to_uint32 height) = sint height mod 2 ^ 32"
  unfolding TextureGPU_Store_recorded uint_to_uint32
  apply (intro exI conjI)
      apply (rule refl)
     apply simp_all
  done

section \<open>Recording a buffer upload\<close>

text \<open>C6, as the spec states it, fails for a negative \<open>sizeInBytes\<close>: the parameter is an
  \<^verbatim>\<open>int\<close>, the size of the region is an unsigned 64-bit number, and \<open>-1\<close> is recorded
  as \<open>2\<^sup>6\<^sup>4 - 1\<close>.\<close>

theorem BufferGPU_Store_negative_size_counterexample:
  "map copy_size (concat (map buffer_copy_regions
      (recorded (snd (BufferGPU_Store buf0 world0 0 5 (- 1))) 0))) = [0xFFFFFFFFFFFFFFFF] \<and>
   uint (0xFFFFFFFFFFFFFFFF :: VkDeviceSize) \<noteq> sint (- 1 :: c_int)"
  by (simp add: BufferGPU_Store_recorded world0_def to_VkDeviceSize_def)

text \<open>C6, amended. Every call of \<^verbatim>\<open>BufferGPU::Store\<close>, whatever \<open>sizeInBytes\<close> is,
  appends exactly one copy command from the staging buffer to the wrapper's buffer, with
  one region: source offset 0, destination offset 0, and as size \<open>sizeInBytes\<close> converted
  to unsigned 64-bit, that is \<open>sizeInBytes\<close> itself when it is not negative and
  \<open>sizeInBytes + 2\<^sup>6\<^sup>4\<close> when it is. Nothing is checked against the allocated size.\<close>

theorem BufferGPU_Store_one_copy:
  "recorded (snd (BufferGPU_Store this w cmd cpuBuffer sizeInBytes)) cmd =
     recorded w cmd @
     [CmdCopyBuffer cpuBuffer (buffer this)
        [\<lparr>srcOffset = 0, dstOffset = 0, copy_size = to_VkDeviceSize sizeInBytes\<rparr>]] \<and>
   uint (to_VkDeviceSize sizeInBytes) = sint sizeInBytes mod 2 ^ 64 \<and>
   (0 \<le> sint sizeInBytes \<longrightarrow> uint (to_VkDeviceSize sizeInBytes) = sint sizeInBytes)"
  by (intro conjI impI BufferGPU_Store_recorded uint_to_VkDeviceSize to_VkDeviceSize_nonneg)

theorem BufferGPU_Store_one_copy_witness:
  "0 \<le> sint (1024 :: c_int) \<and>
   recorded (snd (BufferGPU_Store buf0 world0 0 5 1024)) 0 =
     [CmdCopyBuffer 5 7 [\<lparr>srcOffset = 0, dstOffset = 0, copy_size = 1024\<rparr>]] \<and>
   uint (to_VkDeviceSize 1024) = 1024"
  using BufferGPU_Store_one_copy [of buf0 world0 0 5 1024]
  by (simp add: world0_def buf0_def to_VkDeviceSize_def)

section \<open>Destruction order\<close>

text \<open>C3, as the spec states it, fails for the Image Wrapper: its destructor frees the
  memory first.\<close>

theorem TextureGPU_dtor_order_counterexample:
  "calls (TextureGPU_dtor tex0 world0) =
     [FreeMemory 1 8, DestroyImage 1 3, DestroyImageView 1 5]"
  by (simp add: TextureGPU_dtor_calls world0_def tex0_def)

text \<open>C3, amended. The destructor of the Linear Buffer Wrapper releases the buffer handle
  and then frees the memory. The destructor of the Image Wrapper frees the memory first,
  then releases the image handle, then the view handle.\<close>

theorem dtor_release_order:
  "calls (BufferGPU_dtor b w) =
     calls w @ [DestroyBuffer (buf_device b) (buffer b),
                FreeMemory (buf_device b) (buf_memory b)] \<and>
   calls (TextureGPU_dtor t w) =
     calls w @ [FreeMemory (tex_device t) (tex_memory t),
                DestroyImage (tex_device t) (image t),
                DestroyImageView (tex_device t) (imageView t)]"
  by (simp add: BufferGPU_dtor_calls TextureGPU_dtor_calls)

section \<open>Store leaves the wrapper alone\<close>

text \<open>C10. Neither \<^verbatim>\<open>Store\<close> changes a field of its wrapper, and its only effect on
  the world is to append commands to the command buffer it is given: the device calls,
  the valid handles and every other command buffer stay as they were.\<close>

theorem Store_frame:
  "fst (BufferGPU_Store b w cmd cpuBuffer sizeInBytes) = b \<and>
   (\<exists>cs. snd (BufferGPU_Store b w cmd cpuBuffer sizeInBytes) =
            w\<lparr>recorded := (recorded w)(cmd := recorded w cmd @ cs)\<rparr>) \<and>
   fst (TextureGPU_Store t w cmd cpuBuffer width height) = t \<and>
   (\<exists>cs. snd (TextureGPU_Store t w cmd cpuBuffer width height) =
            w\<lparr>recorded := (recorded w)(cmd := recorded w cmd @ cs)\<rparr>)"
proof (intro conjI)
  show "fst (BufferGPU_Store b w cmd cpuBuffer sizeInBytes) = b"
    by (subst BufferGPU_Store_frame) simp
  show "fst (TextureGPU_Store t w cmd cpuBuffer width height) = t"
    by (subst TextureGPU_Store_frame) simp
  show "\<exists>cs. snd (BufferGPU_Store b w cmd cpuBuffer sizeInBytes) =
               w\<lparr>recorded := (recorded w)(cmd := recorded w cmd @ cs)\<rparr>"
    apply (subst BufferGPU_Store_frame)
    apply (simp only: snd_conv BufferGPU_Store_recorded)
    apply (rule exI)
    apply (rule refl)
    done
  show "\<exists>cs. snd (TextureGPU_Store t w cmd cpuBuffer width height) =
               w\<lparr>recorded := (recorded w)(cmd := recorded w cmd @ cs)\<rparr>"
    apply (subst TextureGPU_Store_frame)
    apply (simp only: snd_conv TextureGPU_Store_recorded)
    apply (rule exI)
    apply (rule refl)
    done
qed

section \<open>Choosing the memory type\<close>

text \<open>C4. With the lookup helper as the spec describes it, both constructors behave as
  follows. If the snapshot has no memory type that is device-local and has its bit set in
  the requirement bitmask the driver reported, construction ends fatally after the object
  creation and the requirements query, before any memory is allocated. Whenever
  construction completes, the memory type index handed to the allocation is a type of the
  snapshot that satisfies both conditions.\<close>

theorem ctor_memory_type_selection:
  "((\<forall>i. \<not> suitable props
             (memoryTypeBits (bufferMemoryRequirements drv d (snd (createBuffer drv d binfo))))
             VK_MEMORY_PROPERTY_DEVICE_LOCAL_BIT i) \<longrightarrow>
      (\<exists>w'. BufferGPU_ctor drv memory_type_from_properties w d props binfo = Fatal w' \<and>
            calls w' = calls w @ [CreateBuffer d binfo,
                                  GetBufferMemoryRequirements d (snd (createBuffer drv d binfo))])) \<and>
   (\<forall>t w'. BufferGPU_ctor drv memory_type_from_properties w d props binfo = Constructed t w' \<longrightarrow>
      (\<exists>ai. calls w' = calls w @ [CreateBuffer d binfo,
                                  GetBufferMemoryRequirements d (buffer t),
                                  AllocateMemory d ai,
                                  BindBufferMemory d (buffer t) (buf_memory t) 0] \<and>
            suitable props
              (memoryTypeBits (bufferMemoryRequirements drv d (snd (createBuffer drv d binfo))))
              VK_MEMORY_PROPERTY_DEVICE_LOCAL_BIT (unat (memoryTypeIndex ai)))) \<and>
   ((\<forall>i. \<not> suitable props
             (memoryTypeBits (imageMemoryRequirements drv d (snd (createImage drv d iinfo))))
             VK_MEMORY_PROPERTY_DEVICE_LOCAL_BIT i) \<longrightarrow>
      (\<exists>w'. TextureGPU_ctor drv memory_type_from_properties w d props iinfo aspect = Fatal w' \<and>
            calls w' = calls w @ [CreateImage d iinfo,
                                  GetImageMemoryRequirements d (snd (createImage drv d iinfo))])) \<and>
   (\<forall>t w'. TextureGPU_ctor drv memory_type_from_properties w d props iinfo aspect =
              Constructed t w' \<longrightarrow>
      (\<exists>ai. calls w' = calls w @ [CreateImage d iinfo,
                                  GetImageMemoryRequirements d (image t),
                                  AllocateMemory d ai,
                                  BindImageMemory d (image t) (tex_memory t) 0,
                                  CreateImageView d (viewCreateInfo t)] \<and>
            suitable props
              (memoryTypeBits (imageMemoryRequirements drv d (snd (createImage drv d iinfo))))
              VK_MEMORY_PROPERTY_DEVICE_LOCAL_BIT (unat (memoryTypeIndex ai))))"
proof (intro conjI impI allI)
  let ?bb = "memoryTypeBits (bufferMemoryRequirements drv d (snd (createBuffer drv d binfo)))"
  let ?ib = "memoryTypeBits (imageMemoryRequirements drv d (snd (createImage drv d iinfo)))"
  {
    assume "\<forall>i. \<not> suitable props ?bb VK_MEMORY_PROPERTY_DEVICE_LOCAL_BIT i"
    then have "memory_type_from_properties props ?bb VK_MEMORY_PROPERTY_DEVICE_LOCAL_BIT = Aborts"
      by (simp add: lookup_Aborts_iff)
    then show "\<exists>w'. BufferGPU_ctor drv memory_type_from_properties w d props binfo = Fatal w' \<and>
            calls w' = calls w @ [CreateBuffer d binfo,
                                  GetBufferMemoryRequirements d (snd (createBuffer drv d binfo))]"
      by (rule BufferGPU_ctor_Aborts
            [where helper = memory_type_from_properties and props = props and drv = drv
               and d = d and info = binfo and w = w])
  }
  {
    assume "\<forall>i. \<not> suitable props ?ib VK_MEMORY_PROPERTY_DEVICE_LOCAL_BIT i"
    then have "memory_type_from_properties props ?ib VK_MEMORY_PROPERTY_DEVICE_LOCAL_BIT = Aborts"
      by (simp add: lookup_Aborts_iff)
    then show "\<exists>w'. TextureGPU_ctor drv memory_type_from_properties w d props iinfo aspect = Fatal w' \<and>
            calls w' = calls w @ [CreateImage d iinfo,
                                  GetImageMemoryRequirements d (snd (createImage drv d iinfo))]"
      by (rule TextureGPU_ctor_Aborts
            [where helper = memory_type_from_properties and props = props and drv = drv
               and d = d and info = iinfo and w = w and aspect = aspect])
  }
  {
    fix t w'
    assume c: "BufferGPU_ctor drv memory_type_from_properties w d props binfo = Constructed t w'"
    from BufferGPU_ctor_Constructed [OF c] obtain rc written
      where r: "memory_type_from_properties props ?bb VK_MEMORY_PROPERTY_DEVICE_LOCAL_BIT =
                  Returns rc written"
      by blast
    from lookup_Returns [OF r] obtain i
      where i: "written = Some (of_nat i)"
               "suitable props ?bb VK_MEMORY_PROPERTY_DEVICE_LOCAL_BIT i"
               "unat (of_nat i :: 32 word) = i"
      by blast
    from BufferGPU_ctor_Returns
           [where helper = memory_type_from_properties and props = props and drv = drv
              and d = d and info = binfo and w = w, OF r] c i
    show "\<exists>ai. calls w' = calls w @ [CreateBuffer d binfo,
                                  GetBufferMemoryRequirements d (buffer t),
                                  AllocateMemory d ai,
                                  BindBufferMemory d (buffer t) (buf_memory t) 0] \<and>
            suitable props ?bb VK_MEMORY_PROPERTY_DEVICE_LOCAL_BIT (unat (memoryTypeIndex ai))"
      by (auto simp: Let_def)
  }
  {
    fix t w'
    assume c: "TextureGPU_ctor drv memory_type_from_properties w d props iinfo aspect =
                 Constructed t w'"
    from TextureGPU_ctor_Constructed [OF c] obtain rc written
      where r: "memory_type_from_properties props ?ib VK_MEMORY_PROPERTY_DEVICE_LOCAL_BIT =
                  Returns rc written"
      by blast
    from lookup_Returns [OF r] obtain i
      where i: "written = Some (of_nat i)"
               "suitable props ?ib VK_MEMORY_PROPERTY_DEVICE_LOCAL_BIT i"
               "unat (of_nat i :: 32 word) = i"
      by blast
    from TextureGPU_ctor_Returns
           [where helper = memory_type_from_properties and props = props and drv = drv
              and d = d and info = iinfo and w = w and aspect = aspect, OF r] c i
    show "\<exists>ai. calls w' = calls w @ [CreateImage d iinfo,
                                  GetImageMemoryRequirements d (image t),
                                  AllocateMemory d ai,
                                  BindImageMemory d (image t) (tex_memory t) 0,
                                  CreateImageView d (viewCreateInfo t)] \<and>
            suitable props ?ib VK_MEMORY_PROPERTY_DEVICE_LOCAL_BIT (unat (memoryTypeIndex ai))"
      by (auto simp: Let_def)
  }
qed

theorem ctor_memory_type_selection_witness:
  "(\<forall>i. \<not> suitable props_host_only 3 VK_MEMORY_PROPERTY_DEVICE_LOCAL_BIT i) \<and>
   (\<exists>w'. BufferGPU_ctor drv_ok memory_type_from_properties world0 1 props_host_only binfo0 =
            Fatal w' \<and>
          calls w' = [CreateBuffer 1 binfo0, GetBufferMemoryRequirements 1 7]) \<and>
   (\<exists>w'. TextureGPU_ctor drv_ok memory_type_from_properties world0 1 props_host_only iinfo0
            VK_IMAGE_ASPECT_COLOR_BIT = Fatal w' \<and>
          calls w' = [CreateImage 1 iinfo0, GetImageMemoryRequirements 1 3]) \<and>
   (\<exists>t w' ai. BufferGPU_ctor drv_ok memory_type_from_properties world0 1 props0 binfo0 =
                 Constructed t w' \<and>
               calls w' = [CreateBuffer 1 binfo0, GetBufferMemoryRequirements 1 7,
                           AllocateMemory 1 ai, BindBufferMemory 1 7 8 0] \<and>
               suitable props0 3 VK_MEMORY_PROPERTY_DEVICE_LOCAL_BIT (unat (memoryTypeIndex ai))) \<and>
   (\<exists>t w' ai. TextureGPU_ctor drv_ok memory_type_from_properties world0 1 props0 iinfo0
                 VK_IMAGE_ASPECT_COLOR_BIT = Constructed t w' \<and>
               calls w' = [CreateImage 1 iinfo0, GetImageMemoryRequirements 1 3,
                           AllocateMemory 1 ai, BindImageMemory 1 3 8 0,
                           CreateImageView 1 (viewCreateInfo t)] \<and>
               suitable props0 3 VK_MEMORY_PROPERTY_DEVICE_LOCAL_BIT (unat (memoryTypeIndex ai)))"
proof -
  have none: "\<forall>i. \<not> suitable props_host_only 3 VK_MEMORY_PROPERTY_DEVICE_LOCAL_BIT i"
    using lookup_props_host_only by (simp add: lookup_Aborts_iff)
  obtain tb wb where cb:
    "BufferGPU_ctor drv_ok memory_type_from_properties world0 1 props0 binfo0 = Constructed tb wb"
    "buffer tb = 7" "buf_memory tb = 8"
    using BufferGPU_ctor_Returns
            [where helper = memory_type_from_properties and props = props0 and drv = drv_ok
               and d = 1 and info = binfo0 and w = world0 and rc = True and written = "Some 1"]
    by (auto simp: Let_def drv_ok_bits lookup_props0 drv_ok_answers)
  obtain ti wi where ci:
    "TextureGPU_ctor drv_ok memory_type_from_properties world0 1 props0 iinfo0
       VK_IMAGE_ASPECT_COLOR_BIT = Constructed ti wi"
    "image ti = 3" "tex_memory ti = 8"
    using TextureGPU_ctor_Returns
            [where helper = memory_type_from_properties and props = props0 and drv = drv_ok
               and d = 1 and info = iinfo0 and w = world0 and rc = True and written = "Some 1"
               and aspect = VK_IMAGE_ASPECT_COLOR_BIT]
    by (auto simp: Let_def drv_ok_bits lookup_props0 drv_ok_answers)
  note sel_host = ctor_memory_type_selection
      [where props = props_host_only and drv = drv_ok and d = 1 and binfo = binfo0
         and iinfo = iinfo0 and w = world0 and aspect = VK_IMAGE_ASPECT_COLOR_BIT]
  note sel_dev = ctor_memory_type_selection
      [where props = props0 and drv = drv_ok and d = 1 and binfo = binfo0
         and iinfo = iinfo0 and w = world0 and aspect = VK_IMAGE_ASPECT_COLOR_BIT]
  from sel_host none
  have f: "(\<exists>w'. BufferGPU_ctor drv_ok memory_type_from_properties world0 1 props_host_only binfo0 =
            Fatal w' \<and>
          calls w' = [CreateBuffer 1 binfo0, GetBufferMemoryRequirements 1 7])"
     "(\<exists>w'. TextureGPU_ctor drv_ok memory_type_from_properties world0 1 props_host_only iinfo0
            VK_IMAGE_ASPECT_COLOR_BIT = Fatal w' \<and>
          calls w' = [CreateImage 1 iinfo0, GetImageMemoryRequirements 1 3])"
    by (simp_all add: drv_ok_bits drv_ok_answers world0_sel)
  from sel_dev cb
  have g: "\<exists>ai. calls wb = [CreateBuffer 1 binfo0, GetBufferMemoryRequirements 1 7,
                           AllocateMemory 1 ai, BindBufferMemory 1 7 8 0] \<and>
               suitable props0 3 VK_MEMORY_PROPERTY_DEVICE_LOCAL_BIT (unat (memoryTypeIndex ai))"
    by (simp add: drv_ok_bits drv_ok_answers world0_sel)
  from sel_dev ci
  have h: "\<exists>ai. calls wi = [CreateImage 1 iinfo0, GetImageMemoryRequirements 1 3,
                           AllocateMemory 1 ai, BindImageMemory 1 3 8 0,
                           CreateImageView 1 (viewCreateInfo ti)] \<and>
               suitable props0 3 VK_MEMORY_PROPERTY_DEVICE_LOCAL_BIT (unat (memoryTypeIndex ai))"
    by (simp add: drv_ok_bits drv_ok_answers world0_sel)
  from none f g h cb(1) ci(1) show ?thesis by blast
qed

section \<open>The view of an image\<close>



section \<open>The barriers read the cached view descriptor\<close>

text \<open>C7. For a wrapper that came out of the constructor, the two barriers that
  \<^verbatim>\<open>Store\<close> records name the image and the subresource range of the cached view
  descriptor: the image created at construction and the range fixed there (the aspect
  mask given to the constructor, mip level 0, one level, layer 0, one layer). Neither
  depends on the arguments of \<^verbatim>\<open>Store\<close>.\<close>

theorem TextureGPU_Store_barriers_cached:
  assumes "TextureGPU_ctor drv helper w0 d props info aspect = Constructed this w1"
  shows "map image_barriers
           (drop (length (recorded w cmd))
              (recorded (snd (TextureGPU_Store this w cmd cpuBuffer width height)) cmd)) =
           [[\<lparr>imb_sType = VK_STRUCTURE_TYPE_IMAGE_MEMORY_BARRIER,
              srcAccessMask = 0,
              dstAccessMask = VK_ACCESS_TRANSFER_WRITE_BIT,
              oldLayout = VK_IMAGE_LAYOUT_PREINITIALIZED,
              newLayout = VK_IMAGE_LAYOUT_TRANSFER_DST_OPTIMAL,
              srcQueueFamilyIndex = 0,
              dstQueueFamilyIndex = 0,
              imb_image = ivci_image (viewCreateInfo this),
              imb_subresourceRange = subresourceRange (viewCreateInfo this)\<rparr>],
            [],
            [\<lparr>imb_sType = VK_STRUCTURE_TYPE_IMAGE_MEMORY_BARRIER,
              srcAccessMask = VK_ACCESS_TRANSFER_WRITE_BIT,
              dstAccessMask = 0,
              oldLayout = VK_IMAGE_LAYOUT_TRANSFER_DST_OPTIMAL,
              newLayout = VK_IMAGE_LAYOUT_SHADER_READ_ONLY_OPTIMAL,
              srcQueueFamilyIndex = 0,
              dstQueueFamilyIndex = 0,
              imb_image = ivci_image (viewCreateInfo this),
              imb_subresourceRange = subresourceRange (viewCreateInfo this)\<rparr>]] \<and>
         ivci_image (viewCreateInfo this) = snd (createImage drv d info) \<and>
         subresourceRange (viewCreateInfo this) =
           \<lparr>aspectMask = aspect, baseMipLevel = 0, levelCount = 1,
            baseArrayLayer = 0, layerCount = 1\<rparr>"
proof -
  from TextureGPU_ctor_Constructed [OF assms] obtain rc written
    where r: "helper props
                (memoryTypeBits (imageMemoryRequirements drv d (snd (createImage drv d info))))
                VK_MEMORY_PROPERTY_DEVICE_LOCAL_BIT = Returns rc written"
    by blast
  from TextureGPU_ctor_Returns
         [where helper = helper and props = props and drv = drv and d = d and info = info
            and w = w0 and aspect = aspect, OF r] assms
  have "ivci_image (viewCreateInfo this) = snd (createImage drv d info) \<and>
        subresourceRange (viewCreateInfo this) =
          \<lparr>aspectMask = aspect, baseMipLevel = 0, levelCount = 1,
           baseArrayLayer = 0, layerCount = 1\<rparr>"
    by (auto simp: Let_def)
  then show ?thesis
    by (simp add: TextureGPU_Store_recorded)
qed

theorem TextureGPU_Store_barriers_cached_witness:
  "\<exists>this w1. TextureGPU_ctor drv_ok memory_type_from_properties world0 1 props0 iinfo0
                VK_IMAGE_ASPECT_COLOR_BIT = Constructed this w1 \<and>
     map (map imb_image) (map image_barriers
        (recorded (snd (TextureGPU_Store this w1 0 9 256 256)) 0)) = [[3], [], [3]] \<and>
     map (map imb_subresourceRange) (map image_barriers
        (recorded (snd (TextureGPU_Store this w1 0 9 256 256)) 0)) =
       [[\<lparr>aspectMask = VK_IMAGE_ASPECT_COLOR_BIT, baseMipLevel = 0, levelCount = 1,
          baseArrayLayer = 0, layerCount = 1\<rparr>], [],
        [\<lparr>aspectMask = VK_IMAGE_ASPECT_COLOR_BIT, baseMipLevel = 0, levelCount = 1,
          baseArrayLayer = 0, layerCount = 1\<rparr>]]"
proof -
  obtain t w' where c:
    "TextureGPU_ctor drv_ok memory_type_from_properties world0 1 props0 iinfo0
       VK_IMAGE_ASPECT_COLOR_BIT = Constructed t w'" and rw: "recorded w' = recorded world0"
    using TextureGPU_ctor_Returns
            [where helper = memory_type_from_properties and props = props0 and drv = drv_ok
               and d = 1 and info = iinfo0 and w = world0 and rc = True and written = "Some 1"
               and aspect = VK_IMAGE_ASPECT_COLOR_BIT]
    by (auto simp: Let_def drv_ok_bits lookup_props0)
  from rw have e: "recorded w' 0 = []" by (simp add: world0_sel)
  from TextureGPU_Store_barriers_cached [OF c, of w' 0 9 256 256] e
  have "map (map imb_image) (map image_barriers
        (recorded (snd (TextureGPU_Store t w' 0 9 256 256)) 0)) = [[3], [], [3]] \<and>
     map (map imb_subresourceRange) (map image_barriers
        (recorded (snd (TextureGPU_Store t w' 0 9 256 256)) 0)) =
       [[\<lparr>aspectMask = VK_IMAGE_ASPECT_COLOR_BIT, baseMipLevel = 0, levelCount = 1,
          baseArrayLayer = 0, layerCount = 1\<rparr>], [],
        [\<lparr>aspectMask = VK_IMAGE_ASPECT_COLOR_BIT, baseMipLevel = 0, levelCount = 1,
          baseArrayLayer = 0, layerCount = 1\<rparr>]]"
    by (simp add: drv_ok_answers)
  with c show ?thesis
    by (intro exI [of _ t] exI [of _ w']) simp
qed

section \<open>Result codes\<close>

text \<open>C9, as the spec states it, fails for the memory-type lookup: with the helper as the
  spec describes it and a snapshot without a device-local type, the lookup ends the
  process, and the constructor of the Linear Buffer Wrapper stops after two device calls;
  no allocation and no binding follow.\<close>

theorem ctor_lookup_abort_counterexample:
  "is_Fatal (BufferGPU_ctor drv_ok memory_type_from_properties world0 1 props_host_only binfo0) \<and>
   calls (world_of
     (BufferGPU_ctor drv_ok memory_type_from_properties world0 1 props_host_only binfo0)) =
     [CreateBuffer 1 binfo0, GetBufferMemoryRequirements 1 7]"
proof -
  have r: "memory_type_from_properties props_host_only
             (memoryTypeBits (bufferMemoryRequirements drv_ok 1 (snd (createBuffer drv_ok 1 binfo0))))
             VK_MEMORY_PROPERTY_DEVICE_LOCAL_BIT = Aborts"
    by (simp add: drv_ok_bits lookup_props_host_only)
  from BufferGPU_ctor_Aborts
         [where helper = memory_type_from_properties and props = props_host_only
            and drv = drv_ok and d = 1 and info = binfo0 and w = world0, OF r]
  show ?thesis
    by (auto simp: world0_sel drv_ok_answers)
qed

text \<open>C9, amended. In both constructors no result code decides anything. Whenever the
  lookup helper comes back, whatever result code \<open>rc\<close> it returns and whether or not it
  wrote an index, and whatever the driver answers to the creation, allocation and binding
  calls, the constructor makes all of its device calls in the same order and completes
  with an object made of the handles the driver left in the output parameters; the memory
  type index is the one the helper wrote, or the 0 of the zero-initialised structure. The
  object and the calls are given by the handles alone: no result code occurs in them.
  Construction has no error result. It does not complete exactly when the helper itself
  ends the process, and then it has made the creation call and the requirements query and
  nothing else.\<close>

theorem ctor_result_codes_discarded:
  "(helper props
      (memoryTypeBits (bufferMemoryRequirements drv d (snd (createBuffer drv d binfo))))
      VK_MEMORY_PROPERTY_DEVICE_LOCAL_BIT = Returns rc written \<longrightarrow>
    (let b = snd (createBuffer drv d binfo);
         ai = \<lparr>mai_sType = VK_STRUCTURE_TYPE_MEMORY_ALLOCATE_INFO,
               allocationSize = req_size (bufferMemoryRequirements drv d b),
               memoryTypeIndex = (case written of None \<Rightarrow> 0 | Some k \<Rightarrow> k)\<rparr>;
         m = snd (allocateMemory drv d ai)
     in \<exists>w'. BufferGPU_ctor drv helper w d props binfo =
                Constructed \<lparr>buf_device = d, buffer = b, buf_memory = m\<rparr> w' \<and>
              calls w' = calls w @ [CreateBuffer d binfo, GetBufferMemoryRequirements d b,
                                    AllocateMemory d ai, BindBufferMemory d b m 0])) \<and>
   (helper props
      (memoryTypeBits (imageMemoryRequirements drv d (snd (createImage drv d iinfo))))
      VK_MEMORY_PROPERTY_DEVICE_LOCAL_BIT = Returns rc' written' \<longrightarrow>
    (let i = snd (createImage drv d iinfo);
         ai = \<lparr>mai_sType = VK_STRUCTURE_TYPE_MEMORY_ALLOCATE_INFO,
               allocationSize = req_size (imageMemoryRequirements drv d i),
               memoryTypeIndex = (case written' of None \<Rightarrow> 0 | Some k \<Rightarrow> k)\<rparr>;
         m = snd (allocateMemory drv d ai);
         vi = \<lparr>ivci_sType = VK_STRUCTURE_TYPE_IMAGE_VIEW_CREATE_INFO,
               ivci_image = i,
               viewType = VK_IMAGE_VIEW_TYPE_2D,
               ivci_format = ici_format iinfo,
               components = \<lparr>comp_r = VK_COMPONENT_SWIZZLE_R, comp_g = VK_COMPONENT_SWIZZLE_G,
                             comp_b = VK_COMPONENT_SWIZZLE_B, comp_a = VK_COMPONENT_SWIZZLE_A\<rparr>,
               subresourceRange = \<lparr>aspectMask = aspect, baseMipLevel = 0, levelCount = 1,
                                   baseArrayLayer = 0, layerCount = 1\<rparr>\<rparr>;
         v = snd (createImageView drv d vi)
     in \<exists>w'. TextureGPU_ctor drv helper w d props iinfo aspect =
                Constructed \<lparr>tex_device = d, image = i, tex_memory = m, imageView = v,
                              viewCreateInfo = vi\<rparr> w' \<and>
              calls w' = calls w @ [CreateImage d iinfo, GetImageMemoryRequirements d i,
                                    AllocateMemory d ai, BindImageMemory d i m 0,
                                    CreateImageView d vi])) \<and>
   ((\<exists>w'. BufferGPU_ctor drv helper w d props binfo = Fatal w') =
    (helper props
       (memoryTypeBits (bufferMemoryRequirements drv d (snd (createBuffer drv d binfo))))
       VK_MEMORY_PROPERTY_DEVICE_LOCAL_BIT = Aborts)) \<and>
   ((\<exists>w'. TextureGPU_ctor drv helper w d props iinfo aspect = Fatal w') =
    (helper props
       (memoryTypeBits (imageMemoryRequirements drv d (snd (createImage drv d iinfo))))
       VK_MEMORY_PROPERTY_DEVICE_LOCAL_BIT = Aborts)) \<and>
   (helper props
      (memoryTypeBits (bufferMemoryRequirements drv d (snd (createBuffer drv d binfo))))
      VK_MEMORY_PROPERTY_DEVICE_LOCAL_BIT = Aborts \<longrightarrow>
    (\<exists>w'. BufferGPU_ctor drv helper w d props binfo = Fatal w' \<and>
          calls w' = calls w @ [CreateBuffer d binfo,
                                GetBufferMemoryRequirements d (snd (createBuffer drv d binfo))])) \<and>
   (helper props
      (memoryTypeBits (imageMemoryRequirements drv d (snd (createImage drv d iinfo))))
      VK_MEMORY_PROPERTY_DEVICE_LOCAL_BIT = Aborts \<longrightarrow>
    (\<exists>w'. TextureGPU_ctor drv helper w d props iinfo aspect = Fatal w' \<and>
          calls w' = calls w @ [CreateImage d iinfo,
                                GetImageMemoryRequirements d (snd (createImage drv d iinfo))]))"
proof (intro conjI impI)
  assume r: "helper props
      (memoryTypeBits (bufferMemoryRequirements drv d (snd (createBuffer drv d binfo))))
      VK_MEMORY_PROPERTY_DEVICE_LOCAL_BIT = Returns rc written"
  from BufferGPU_ctor_Returns
         [where helper = helper and props = props and drv = drv and d = d and info = binfo
            and w = w, OF r]
  show "let b = snd (createBuffer drv d binfo);
         ai = \<lparr>mai_sType = VK_STRUCTURE_TYPE_MEMORY_ALLOCATE_INFO,
               allocationSize = req_size (bufferMemoryRequirements drv d b),
               memoryTypeIndex = (case written of None \<Rightarrow> 0 | Some k \<Rightarrow> k)\<rparr>;
         m = snd (allocateMemory drv d ai)
     in \<exists>w'. BufferGPU_ctor drv helper w d props binfo =
                Constructed \<lparr>buf_device = d, buffer = b, buf_memory = m\<rparr> w' \<and>
              calls w' = calls w @ [CreateBuffer d binfo, GetBufferMemoryRequirements d b,
                                    AllocateMemory d ai, BindBufferMemory d b m 0]"
    by (auto simp: Let_def)
next
  assume r: "helper props
      (memoryTypeBits (imageMemoryRequirements drv d (snd (createImage drv d iinfo))))
      VK_MEMORY_PROPERTY_DEVICE_LOCAL_BIT = Returns rc' written'"
  from TextureGPU_ctor_Returns
         [where helper = helper and props = props and drv = drv and d = d and info = iinfo
            and w = w and aspect = aspect, OF r]
  show "let i = snd (createImage drv d iinfo);
         ai = \<lparr>mai_sType = VK_STRUCTURE_TYPE_MEMORY_ALLOCATE_INFO,
               allocationSize = req_size (imageMemoryRequirements drv d i),
               memoryTypeIndex = (case written' of None \<Rightarrow> 0 | Some k \<Rightarrow> k)\<rparr>;
         m = snd (allocateMemory drv d ai);
         vi = \<lparr>ivci_sType = VK_STRUCTURE_TYPE_IMAGE_VIEW_CREATE_INFO,
               ivci_image = i,
               viewType = VK_IMAGE_VIEW_TYPE_2D,
               ivci_format = ici_format iinfo,
               components = \<lparr>comp_r = VK_COMPONENT_SWIZZLE_R, comp_g = VK_COMPONENT_SWIZZLE_G,
                             comp_b = VK_COMPONENT_SWIZZLE_B, comp_a = VK_COMPONENT_SWIZZLE_A\<rparr>,
               subresourceRange = \<lparr>aspectMask = aspect, baseMipLevel = 0, levelCount = 1,
                                   baseArrayLayer = 0, layerCount = 1\<rparr>\<rparr>;
         v = snd (createImageView drv d vi)
     in \<exists>w'. TextureGPU_ctor drv helper w d props iinfo aspect =
                Constructed \<lparr>tex_device = d, image = i, tex_memory = m, imageView = v,
                              viewCreateInfo = vi\<rparr> w' \<and>
              calls w' = calls w @ [CreateImage d iinfo, GetImageMemoryRequirements d i,
                                    AllocateMemory d ai, BindImageMemory d i m 0,
                                    CreateImageView d vi]"
    by (auto simp: Let_def)
next
  show "(\<exists>w'. BufferGPU_ctor drv helper w d props binfo = Fatal w') =
    (helper props
       (memoryTypeBits (bufferMemoryRequirements drv d (snd (createBuffer drv d binfo))))
       VK_MEMORY_PROPERTY_DEVICE_LOCAL_BIT = Aborts)"
    by (rule BufferGPU_ctor_Fatal_iff)
next
  show "(\<exists>w'. TextureGPU_ctor drv helper w d props iinfo aspect = Fatal w') =
    (helper props
       (memoryTypeBits (imageMemoryRequirements drv d (snd (createImage drv d iinfo))))
       VK_MEMORY_PROPERTY_DEVICE_LOCAL_BIT = Aborts)"
    by (rule TextureGPU_ctor_Fatal_iff)
next
  assume "helper props
      (memoryTypeBits (bufferMemoryRequirements drv d (snd (createBuffer drv d binfo))))
      VK_MEMORY_PROPERTY_DEVICE_LOCAL_BIT = Aborts"
  then show "\<exists>w'. BufferGPU_ctor drv helper w d props binfo = Fatal w' \<and>
          calls w' = calls w @ [CreateBuffer d binfo,
                                GetBufferMemoryRequirements d (snd (createBuffer drv d binfo))]"
    by (rule BufferGPU_ctor_Aborts
          [where helper = helper and props = props and drv = drv and d = d and info = binfo
             and w = w])
next
  assume "helper props
      (memoryTypeBits (imageMemoryRequirements drv d (snd (createImage drv d iinfo))))
      VK_MEMORY_PROPERTY_DEVICE_LOCAL_BIT = Aborts"
  then show "\<exists>w'. TextureGPU_ctor drv helper w d props iinfo aspect = Fatal w' \<and>
          calls w' = calls w @ [CreateImage d iinfo,
                                GetImageMemoryRequirements d (snd (createImage drv d iinfo))]"
    by (rule TextureGPU_ctor_Aborts
          [where helper = helper and props = props and drv = drv and d = d and info = iinfo
             and w = w and aspect = aspect])
qed

theorem ctor_result_codes_discarded_witness:
  "memory_type_from_properties props0 3 VK_MEMORY_PROPERTY_DEVICE_LOCAL_BIT =
     Returns True (Some 1) \<and>
   memory_type_from_properties props_host_only 3 VK_MEMORY_PROPERTY_DEVICE_LOCAL_BIT = Aborts \<and>
   fst (allocateMemory drv_oom 1
          \<lparr>mai_sType = VK_STRUCTURE_TYPE_MEMORY_ALLOCATE_INFO, allocationSize = 1024,
           memoryTypeIndex = 1\<rparr>) = VK_ERROR_OUT_OF_DEVICE_MEMORY \<and>
   (\<exists>w'. BufferGPU_ctor drv_oom memory_type_from_properties world0 1 props0 binfo0 =
            Constructed \<lparr>buf_device = 1, buffer = 7, buf_memory = 0\<rparr> w' \<and>
          calls w' =
            [CreateBuffer 1 binfo0, GetBufferMemoryRequirements 1 7,
             AllocateMemory 1 \<lparr>mai_sType = VK_STRUCTURE_TYPE_MEMORY_ALLOCATE_INFO,
                               allocationSize = 1024, memoryTypeIndex = 1\<rparr>,
             BindBufferMemory 1 7 0 0]) \<and>
   (\<exists>w'. TextureGPU_ctor drv_oom memory_type_from_properties world0 1 props0 iinfo0
            VK_IMAGE_ASPECT_COLOR_BIT =
            Constructed \<lparr>tex_device = 1, image = 3, tex_memory = 0, imageView = 5,
                          viewCreateInfo = viewCreateInfo tex0\<rparr> w' \<and>
          calls w' =
            [CreateImage 1 iinfo0, GetImageMemoryRequirements 1 3,
             AllocateMemory 1 \<lparr>mai_sType = VK_STRUCTURE_TYPE_MEMORY_ALLOCATE_INFO,
                               allocationSize = 1024, memoryTypeIndex = 1\<rparr>,
             BindImageMemory 1 3 0 0,
             CreateImageView 1 (viewCreateInfo tex0)]) \<and>
   (\<exists>w'. BufferGPU_ctor drv_oom memory_type_from_properties world0 1 props_host_only binfo0 =
            Fatal w' \<and>
          calls w' = [CreateBuffer 1 binfo0, GetBufferMemoryRequirements 1 7]) \<and>
   (\<exists>w'. TextureGPU_ctor drv_oom memory_type_from_properties world0 1 props_host_only iinfo0
            VK_IMAGE_ASPECT_COLOR_BIT = Fatal w' \<and>
          calls w' = [CreateImage 1 iinfo0, GetImageMemoryRequirements 1 3])"
  using ctor_result_codes_discarded
          [where helper = memory_type_from_properties and props = props0 and drv = drv_oom
             and d = 1 and binfo = binfo0 and iinfo = iinfo0 and w = world0
             and aspect = VK_IMAGE_ASPECT_COLOR_BIT and rc = True and written = "Some 1"
             and rc' = True and written' = "Some 1"]
        ctor_result_codes_discarded
          [where helper = memory_type_from_properties and props = props_host_only
             and drv = drv_oom and d = 1 and binfo = binfo0 and iinfo = iinfo0 and w = world0
             and aspect = VK_IMAGE_ASPECT_COLOR_BIT]
  by (simp add: lookup_props0 lookup_props_host_only Let_def drv_oom_answers drv_oom_bits
        world0_sel tex0_def iinfo0_def)

section \<open>Validity of the handles\<close>

text \<open>C8, as the spec states it, fails: construction completes whether or not the driver
  accepted every call. With a driver that creates the buffer and refuses the allocation,
  the constructed Linear Buffer Wrapper holds a valid buffer handle and a memory handle
  that is not valid.\<close>

theorem BufferGPU_ctor_partial_counterexample:
  "\<not> is_Fatal (BufferGPU_ctor drv_oom memory_type_from_properties world0 1 props0 binfo0) \<and>
   buffer (object_of (BufferGPU_ctor drv_oom memory_type_from_properties world0 1 props0 binfo0))
     \<in> live_buffers
         (world_of (BufferGPU_ctor drv_oom memory_type_from_properties world0 1 props0 binfo0)) \<and>
   buf_memory (object_of (BufferGPU_ctor drv_oom memory_type_from_properties world0 1 props0 binfo0))
     \<notin> live_memory
         (world_of (BufferGPU_ctor drv_oom memory_type_from_properties world0 1 props0 binfo0))"
proof -
  have r: "memory_type_from_properties props0
             (memoryTypeBits (bufferMemoryRequirements drv_oom 1 (snd (createBuffer drv_oom 1 binfo0))))
             VK_MEMORY_PROPERTY_DEVICE_LOCAL_BIT = Returns True (Some 1)"
    by (simp add: drv_oom_bits lookup_props0)
  from BufferGPU_ctor_Returns
         [where helper = memory_type_from_properties and props = props0 and drv = drv_oom
            and d = 1 and info = binfo0 and w = world0, OF r]
  show ?thesis
    by (auto simp: Let_def drv_oom_answers world0_sel)
qed

text \<open>C8, amended. For each wrapper on its own: if the driver accepted the calls that
  its constructor made to create the object, to allocate the memory and (for the Image
  Wrapper) to create the view, then after construction every handle of the wrapper is
  valid: buffer and memory for the Linear Buffer Wrapper; image, memory and view for the
  Image Wrapper. \<^verbatim>\<open>Store\<close> leaves them valid. After destruction, from any state, none
  of the wrapper's handles is valid.\<close>

theorem handles_valid_per_wrapper:
  "(BufferGPU_ctor drv helper w d props binfo = Constructed b wb \<and>
    fst (createBuffer drv d binfo) = VK_SUCCESS \<and>
    (\<forall>ai. AllocateMemory d ai \<in> set (drop (length (calls w)) (calls wb)) \<longrightarrow>
          fst (allocateMemory drv d ai) = VK_SUCCESS) \<longrightarrow>
      buffer b \<in> live_buffers wb \<and> buf_memory b \<in> live_memory wb \<and>
      buffer b \<in> live_buffers (snd (BufferGPU_Store b wb cmd cpuBuffer sizeInBytes)) \<and>
      buf_memory b \<in> live_memory (snd (BufferGPU_Store b wb cmd cpuBuffer sizeInBytes))) \<and>
   (TextureGPU_ctor drv helper w d props iinfo aspect = Constructed t wt \<and>
    fst (createImage drv d iinfo) = VK_SUCCESS \<and>
    (\<forall>ai. AllocateMemory d ai \<in> set (drop (length (calls w)) (calls wt)) \<longrightarrow>
          fst (allocateMemory drv d ai) = VK_SUCCESS) \<and>
    fst (createImageView drv d (viewCreateInfo t)) = VK_SUCCESS \<longrightarrow>
      image t \<in> live_images wt \<and> tex_memory t \<in> live_memory wt \<and>
      imageView t \<in> live_views wt \<and>
      image t \<in> live_images (snd (TextureGPU_Store t wt cmd cpuBuffer width height)) \<and>
      tex_memory t \<in> live_memory (snd (TextureGPU_Store t wt cmd cpuBuffer width height)) \<and>
      imageView t \<in> live_views (snd (TextureGPU_Store t wt cmd cpuBuffer width height))) \<and>
   buffer b' \<notin> live_buffers (BufferGPU_dtor b' w1) \<and>
   buf_memory b' \<notin> live_memory (BufferGPU_dtor b' w1) \<and>
   image t' \<notin> live_images (TextureGPU_dtor t' w2) \<and>
   tex_memory t' \<notin> live_memory (TextureGPU_dtor t' w2) \<and>
   imageView t' \<notin> live_views (TextureGPU_dtor t' w2)"
proof (intro conjI impI)
  assume h: "BufferGPU_ctor drv helper w d props binfo = Constructed b wb \<and>
    fst (createBuffer drv d binfo) = VK_SUCCESS \<and>
    (\<forall>ai. AllocateMemory d ai \<in> set (drop (length (calls w)) (calls wb)) \<longrightarrow>
          fst (allocateMemory drv d ai) = VK_SUCCESS)"
  then have c: "BufferGPU_ctor drv helper w d props binfo = Constructed b wb" by simp
  from BufferGPU_ctor_Constructed [OF c] obtain rc written
    where r: "helper props
                (memoryTypeBits (bufferMemoryRequirements drv d (snd (createBuffer drv d binfo))))
                VK_MEMORY_PROPERTY_DEVICE_LOCAL_BIT = Returns rc written"
    by blast
  from BufferGPU_ctor_Returns
         [where helper = helper and props = props and drv = drv and d = d and info = binfo
            and w = w, OF r] h
  have v: "buffer b \<in> live_buffers wb \<and> buf_memory b \<in> live_memory wb"
    by (auto simp: Let_def)
  from v show "buffer b \<in> live_buffers wb" "buf_memory b \<in> live_memory wb"
    by simp_all
  from v show "buffer b \<in> live_buffers (snd (BufferGPU_Store b wb cmd cpuBuffer sizeInBytes))"
    "buf_memory b \<in> live_memory (snd (BufferGPU_Store b wb cmd cpuBuffer sizeInBytes))"
    by (simp_all add: BufferGPU_Store_live)
next
  assume h: "TextureGPU_ctor drv helper w d props iinfo aspect = Constructed t wt \<and>
    fst (createImage drv d iinfo) = VK_SUCCESS \<and>
    (\<forall>ai. AllocateMemory d ai \<in> set (drop (length (calls w)) (calls wt)) \<longrightarrow>
          fst (allocateMemory drv d ai) = VK_SUCCESS) \<and>
    fst (createImageView drv d (viewCreateInfo t)) = VK_SUCCESS"
  then have c: "TextureGPU_ctor drv helper w d props iinfo aspect = Constructed t wt" by simp
  from TextureGPU_ctor_Constructed [OF c] obtain rc written
    where r: "helper props
                (memoryTypeBits (imageMemoryRequirements drv d (snd (createImage drv d iinfo))))
                VK_MEMORY_PROPERTY_DEVICE_LOCAL_BIT = Returns rc written"
    by blast
  from TextureGPU_ctor_Returns
         [where helper = helper and props = props and drv = drv and d = d and info = iinfo
            and w = w and aspect = aspect, OF r] h
  have v: "image t \<in> live_images wt \<and> tex_memory t \<in> live_memory wt \<and>
           imageView t \<in> live_views wt"
    by (auto simp: Let_def)
  from v show "image t \<in> live_images wt" "tex_memory t \<in> live_memory wt"
    "imageView t \<in> live_views wt"
    by simp_all
  from v show "image t \<in> live_images (snd (TextureGPU_Store t wt cmd cpuBuffer width height))"
    "tex_memory t \<in> live_memory (snd (TextureGPU_Store t wt cmd cpuBuffer width height))"
    "imageView t \<in> live_views (snd (TextureGPU_Store t wt cmd cpuBuffer width height))"
    by (simp_all add: TextureGPU_Store_live)
next
  show "buffer b' \<notin> live_buffers (BufferGPU_dtor b' w1)"
    "buf_memory b' \<notin> live_memory (BufferGPU_dtor b' w1)"
    by (simp_all add: BufferGPU_dtor_live)
  show "image t' \<notin> live_images (TextureGPU_dtor t' w2)"
    "tex_memory t' \<notin> live_memory (TextureGPU_dtor t' w2)"
    "imageView t' \<notin> live_views (TextureGPU_dtor t' w2)"
    by (simp_all add: TextureGPU_dtor_live)
qed

theorem handles_valid_per_wrapper_witness:
  "fst (allocateMemory drv_limited 1
          \<lparr>mai_sType = VK_STRUCTURE_TYPE_MEMORY_ALLOCATE_INFO, allocationSize = 0x80000000,
           memoryTypeIndex = 1\<rparr>) = VK_ERROR_OUT_OF_DEVICE_MEMORY \<and>
   (\<exists>b wb t wt.
      BufferGPU_ctor drv_limited memory_type_from_properties world0 1 props0 binfo0 =
        Constructed b wb \<and>
      fst (createBuffer drv_limited 1 binfo0) = VK_SUCCESS \<and>
      (\<forall>ai. AllocateMemory 1 ai \<in> set (drop (length (calls world0)) (calls wb)) \<longrightarrow>
            fst (allocateMemory drv_limited 1 ai) = VK_SUCCESS) \<and>
      TextureGPU_ctor drv_limited memory_type_from_properties world0 1 props0 iinfo0
        VK_IMAGE_ASPECT_COLOR_BIT = Constructed t wt \<and>
      fst (createImage drv_limited 1 iinfo0) = VK_SUCCESS \<and>
      (\<forall>ai. AllocateMemory 1 ai \<in> set (drop (length (calls world0)) (calls wt)) \<longrightarrow>
            fst (allocateMemory drv_limited 1 ai) = VK_SUCCESS) \<and>
      fst (createImageView drv_limited 1 (viewCreateInfo t)) = VK_SUCCESS \<and>
      buffer b \<in> live_buffers wb \<and> buf_memory b \<in> live_memory wb \<and>
      image t \<in> live_images wt \<and> tex_memory t \<in> live_memory wt \<and>
      imageView t \<in> live_views wt \<and>
      buffer b \<notin> live_buffers (BufferGPU_dtor b wb) \<and>
      buf_memory b \<notin> live_memory (BufferGPU_dtor b wb) \<and>
      image t \<notin> live_images (TextureGPU_dtor t wt) \<and>
      tex_memory t \<notin> live_memory (TextureGPU_dtor t wt) \<and>
      imageView t \<notin> live_views (TextureGPU_dtor t wt))"
proof -
  have refuses: "fst (allocateMemory drv_limited 1
          \<lparr>mai_sType = VK_STRUCTURE_TYPE_MEMORY_ALLOCATE_INFO, allocationSize = 0x80000000,
           memoryTypeIndex = 1\<rparr>) = VK_ERROR_OUT_OF_DEVICE_MEMORY"
    by (simp add: drv_limited_answers)
  have sb: "fst (createBuffer drv_limited 1 binfo0) = VK_SUCCESS"
    and si: "fst (createImage drv_limited 1 iinfo0) = VK_SUCCESS"
    by (simp_all add: drv_limited_answers)
  obtain b wb where cb:
    "BufferGPU_ctor drv_limited memory_type_from_properties world0 1 props0 binfo0 =
       Constructed b wb"
    and ab: "\<forall>ai. AllocateMemory 1 ai \<in> set (drop (length (calls world0)) (calls wb)) \<longrightarrow>
            fst (allocateMemory drv_limited 1 ai) = VK_SUCCESS"
    using BufferGPU_ctor_Returns
            [where helper = memory_type_from_properties and props = props0
               and drv = drv_limited and d = 1 and info = binfo0 and w = world0
               and rc = True and written = "Some 1"]
    by (auto simp: Let_def drv_limited_answers lookup_props0)
  obtain t wt where ct:
    "TextureGPU_ctor drv_limited memory_type_from_properties world0 1 props0 iinfo0
       VK_IMAGE_ASPECT_COLOR_BIT = Constructed t wt"
    and at: "\<forall>ai. AllocateMemory 1 ai \<in> set (drop (length (calls world0)) (calls wt)) \<longrightarrow>
            fst (allocateMemory drv_limited 1 ai) = VK_SUCCESS"
    using TextureGPU_ctor_Returns
            [where helper = memory_type_from_properties and props = props0
               and drv = drv_limited and d = 1 and info = iinfo0 and w = world0
               and rc = True and written = "Some 1" and aspect = VK_IMAGE_ASPECT_COLOR_BIT]
    by (auto simp: Let_def drv_limited_answers lookup_props0)
  have sv: "fst (createImageView drv_limited 1 (viewCreateInfo t)) = VK_SUCCESS"
    by (simp add: drv_limited_answers)
  note v = handles_valid_per_wrapper
      [where drv = drv_limited and helper = memory_type_from_properties and w = world0
         and d = 1 and props = props0 and binfo = binfo0 and iinfo = iinfo0
         and aspect = VK_IMAGE_ASPECT_COLOR_BIT and b = b and wb = wb and t = t and wt = wt
         and b' = b and ?w1.0 = wb and t' = t and ?w2.0 = wt]
  from v cb sb ab
  have vb: "buffer b \<in> live_buffers wb" "buf_memory b \<in> live_memory wb"
    by blast+
  from v ct si at sv
  have vt: "image t \<in> live_images wt" "tex_memory t \<in> live_memory wt"
    "imageView t \<in> live_views wt"
    by blast+
  from v
  have rel: "buffer b \<notin> live_buffers (BufferGPU_dtor b wb)"
    "buf_memory b \<notin> live_memory (BufferGPU_dtor b wb)"
    "image t \<notin> live_images (TextureGPU_dtor t wt)"
    "tex_memory t \<notin> live_memory (TextureGPU_dtor t wt)"
    "imageView t \<notin> live_views (TextureGPU_dtor t wt)"
    by blast+
  from cb sb ab ct si at sv vb vt rel
  have "\<exists>b wb t wt.
      BufferGPU_ctor drv_limited memory_type_from_properties world0 1 props0 binfo0 =
        Constructed b wb \<and>
      fst (createBuffer drv_limited 1 binfo0) = VK_SUCCESS \<and>
      (\<forall>ai. AllocateMemory 1 ai \<in> set (drop (length (calls world0)) (calls wb)) \<longrightarrow>
            fst (allocateMemory drv_limited 1 ai) = VK_SUCCESS) \<and>
      TextureGPU_ctor drv_limited memory_type_from_properties world0 1 props0 iinfo0
        VK_IMAGE_ASPECT_COLOR_BIT = Constructed t wt \<and>
      fst (createImage drv_limited 1 iinfo0) = VK_SUCCESS \<and>
      (\<forall>ai. AllocateMemory 1 ai \<in> set (drop (length (calls world0)) (calls wt)) \<longrightarrow>
            fst (allocateMemory drv_limited 1 ai) = VK_SUCCESS) \<and>
      fst (createImageView drv_limited 1 (viewCreateInfo t)) = VK_SUCCESS \<and>
      buffer b \<in> live_buffers wb \<and> buf_memory b \<in> live_memory wb \<and>
      image t \<in> live_images wt \<and> tex_memory t \<in> live_memory wt \<and>
      imageView t \<in> live_views wt \<and>
      buffer b \<notin> live_buffers (BufferGPU_dtor b wb) \<and>
      buf_memory b \<notin> live_memory (BufferGPU_dtor b wb) \<and>
      image t \<notin> live_images (TextureGPU_dtor t wt) \<and>
      tex_memory t \<notin> live_memory (TextureGPU_dtor t wt) \<and>
      imageView t \<notin> live_views (TextureGPU_dtor t wt)"
    by (intro exI [of _ b] exI [of _ wb] exI [of _ t] exI [of _ wt] conjI)
  with refuses show ?thesis by (intro conjI)
qed

end
